theory Spec2Isabelle
  imports Complex_Main "HOL-Library.Char_ord" "HOL-Library.List_Lexorder"
begin

section \<open>The relational store\<close>

text \<open>
  The data-access layer of the vehicle inventory (\<^verbatim>\<open>controllers/extract_data.py\<close>) is a
  set of SQL statements run against a MySQL schema. A table is a list of rows, a row is a
  record of its columns, and a statement is a function on the database. The columns are
  those the statements name.
\<close>

text \<open>
  Modelled from the spec: the schema file (\<^verbatim>\<open>001_north_avenue_Schema.sql\<close>) is not among the
  sources, so the types of the columns are the ones the spec gives them. Money is an exact
  decimal (\<^typ>\<open>rat\<close>), a date is a day number, and every column is \<^verbatim>\<open>NOT NULL\<close>. Strings
  compare by equality, as under a binary collation.
\<close>

type_synonym decimal = rat
type_synonym date = int

record vehicle =
  vehicle_identification_number :: string
  vehicle_type :: string
  manufacturer_name :: string
  model_name :: string
  year :: int
  fuel_type :: string
  horsepower :: int
  condition :: string
  description :: string

record vehicle_color =
  vc_vehicle_identification_number :: string
  color_name :: string

record sale_transaction =
  st_vehicle_identification_number :: string
  sale_price :: decimal
  sold_on :: date

record purchase_transaction =
  pt_vehicle_identification_number :: string
  purchase_price :: decimal
  purchased_on :: date

record parts_order =
  po_vehicle_identification_number :: string
  po_name :: string
  order_number :: string
  total_cost :: decimal

record part =
  p_order_number :: string
  vendor_parts_number :: string
  p_description :: string
  quantity :: int
  status :: string
  unit_price :: decimal

record database =
  Vehicle :: "vehicle list"
  VehicleColor :: "vehicle_color list"
  SaleTransaction :: "sale_transaction list"
  PurchaseTransaction :: "purchase_transaction list"
  PartsOrder :: "parts_order list"
  Part :: "part list"
  VehicleType :: "string list"
  Vendor :: "string list"

section \<open>Part status updates\<close>

text \<open>The dictionary \<^verbatim>\<open>valid_status_transitions\<close> of \<^verbatim>\<open>update_part_status\<close>.\<close>

definition valid_status_transitions :: "(string \<times> string list) list" where
  "valid_status_transitions =
     [(''Ordered'', [''Received'', ''Installed'']),
      (''Received'', [''Installed'']),
      (''Installed'', [])]"

text \<open>Python's \<^verbatim>\<open>d.get(k, default)\<close>.\<close>

definition dict_get :: "('k \<times> 'v) list \<Rightarrow> 'k \<Rightarrow> 'v \<Rightarrow> 'v" where
  "dict_get d k dflt = (case map_of d k of None \<Rightarrow> dflt | Some v \<Rightarrow> v)"

text \<open>
  \<^verbatim>\<open>WHERE order_number = :order_number AND vendor_parts_number = :vendor_part_number\<close>.
\<close>

definition part_where :: "string \<Rightarrow> string \<Rightarrow> part \<Rightarrow> bool" where
  "part_where order_no vendor_part_no p \<longleftrightarrow>
     p_order_number p = order_no \<and> vendor_parts_number p = vendor_part_no"

text \<open>\<^verbatim>\<open>SELECT status FROM Part WHERE ...\<close> followed by \<^verbatim>\<open>fetchone()\<close>: the first row, if any.\<close>

definition select_status :: "database \<Rightarrow> string \<Rightarrow> string \<Rightarrow> string option" where
  "select_status db order_no vendor_part_no =
     map_option status (find (part_where order_no vendor_part_no) (Part db))"

text \<open>
  \<^verbatim>\<open>UPDATE Part SET status = :new_status WHERE ...\<close>: every matching row is rewritten; the
  second component is the statement's \<^verbatim>\<open>rowcount\<close>, the number of rows matched.
\<close>

definition update_part_set_status ::
  "database \<Rightarrow> string \<Rightarrow> string \<Rightarrow> string \<Rightarrow> database \<times> nat" where
  "update_part_set_status db new_status order_no vendor_part_no =
     (db\<lparr>Part := map (\<lambda>p. if part_where order_no vendor_part_no p
                              then p\<lparr>status := new_status\<rparr> else p) (Part db)\<rparr>,
      length (filter (part_where order_no vendor_part_no) (Part db)))"

text \<open>
  \<^verbatim>\<open>update_part_status(order_number, vendor_part_number, new_status)\<close>: the result is the
  returned flag and the database after the call.
\<close>

definition update_part_status ::
  "string \<Rightarrow> string \<Rightarrow> string \<Rightarrow> database \<Rightarrow> bool \<times> database" where
  "update_part_status order_no vendor_part_no new_status db =
     (case select_status db order_no vendor_part_no of
        None \<Rightarrow> (False, db)
      | Some current_status \<Rightarrow>
          if new_status \<in> set (dict_get valid_status_transitions current_status [])
          then (True, fst (update_part_set_status db new_status order_no vendor_part_no))
          else (False, db))"

text \<open>
  \<^verbatim>\<open>update_status(new_status, vendor_part_number, order_number)\<close>: the \<^verbatim>\<open>UPDATE\<close> is run
  at once and the flag is \<^verbatim>\<open>result.rowcount > 0\<close>. The statement of the model never
  raises, so the \<^verbatim>\<open>except\<close> branch has no counterpart.
\<close>

definition update_status ::
  "string \<Rightarrow> string \<Rightarrow> string \<Rightarrow> database \<Rightarrow> bool \<times> database" where
  "update_status new_status vendor_part_no order_no db =
     (let (db', rowcount) = update_part_set_status db new_status order_no vendor_part_no
      in (rowcount > 0, db'))"

text \<open>The transitions of the part state machine, as the spec lists them.\<close>

definition legal_transition :: "string \<Rightarrow> string \<Rightarrow> bool" where
  "legal_transition old new \<longleftrightarrow>
     (old = ''Ordered'' \<and> new = ''Received'') \<or>
     (old = ''Ordered'' \<and> new = ''Installed'') \<or>
     (old = ''Received'' \<and> new = ''Installed'')"

text \<open>The primary key of \<^verbatim>\<open>Part\<close>: (order_number, vendor_parts_number).\<close>

definition part_key :: "part \<Rightarrow> string \<times> string" where
  "part_key p = (p_order_number p, vendor_parts_number p)"

section \<open>Vehicle search\<close>

subsection \<open>SQL building blocks\<close>

text \<open>\<^verbatim>\<open>xs LEFT JOIN ys ON on\<close> and \<^verbatim>\<open>xs INNER JOIN ys ON on\<close>.\<close>

definition left_join :: "'a list \<Rightarrow> 'b list \<Rightarrow> ('a \<Rightarrow> 'b \<Rightarrow> bool) \<Rightarrow> ('a \<times> 'b option) list" where
  "left_join xs ys on =
     concat (map (\<lambda>x. case filter (on x) ys of
                          [] \<Rightarrow> [(x, None)]
                        | m # ms \<Rightarrow> map (\<lambda>y. (x, Some y)) (m # ms)) xs)"

definition inner_join :: "'a list \<Rightarrow> 'b list \<Rightarrow> ('a \<Rightarrow> 'b \<Rightarrow> bool) \<Rightarrow> ('a \<times> 'b) list" where
  "inner_join xs ys on = concat (map (\<lambda>x. map (\<lambda>y. (x, y)) (filter (on x) ys)) xs)"

text \<open>\<^verbatim>\<open>GROUP BY\<close>: each group is its first row and all its rows, groups in order of first rows.\<close>

fun group_by :: "('a \<Rightarrow> 'k) \<Rightarrow> 'a list \<Rightarrow> ('a \<times> 'a list) list" where
  "group_by key [] = []"
| "group_by key (x # xs) =
     (x, x # filter (\<lambda>y. key y = key x) xs) # group_by key (filter (\<lambda>y. key y \<noteq> key x) xs)"

text \<open>\<^verbatim>\<open>ROUND(x, 2)\<close> on an exact decimal: half away from zero.\<close>

definition sql_round2 :: "decimal \<Rightarrow> decimal" where
  "sql_round2 x =
     (if x < 0 then - (of_int \<lfloor>- x * 100 + 1 / 2\<rfloor> / 100)
      else of_int \<lfloor>x * 100 + 1 / 2\<rfloor> / 100)"

text \<open>The lower-case form of an ASCII letter; any other character is left as it is.\<close>

definition ascii_lower :: "char \<Rightarrow> char" where
  "ascii_lower c =
     (if CHR ''A'' \<le> c \<and> c \<le> CHR ''Z'' then char_of (of_char c + (32 :: nat)) else c)"

text \<open>
  \<^verbatim>\<open>text LIKE pattern\<close>: \<^verbatim>\<open>%\<close> stands for any run of characters, \<^verbatim>\<open>_\<close> for any one
  character, a backslash takes the next pattern character literally, and the case of
  ASCII letters is ignored.
\<close>

fun sql_like :: "string \<Rightarrow> string \<Rightarrow> bool" where
  "sql_like [] [] = True"
| "sql_like (x # xs) [] = False"
| "sql_like [] (c # p) = (c = CHR ''%'' \<and> sql_like [] p)"
| "sql_like (x # xs) (c # p) =
     (if c = CHR ''%'' then sql_like (x # xs) p \<or> sql_like xs (c # p)
      else if c = CHR ''_'' then sql_like xs p
      else if c = CHR 0x5C then
        (case p of
           [] \<Rightarrow> x = c \<and> xs = []
         | d # p' \<Rightarrow> ascii_lower x = ascii_lower d \<and> sql_like xs p')
      else ascii_lower x = ascii_lower c \<and> sql_like xs p)"

text \<open>Decimal digits of a number: Python's \<^verbatim>\<open>str(n)\<close> and SQL's \<^verbatim>\<open>CAST(n AS CHAR)\<close>.\<close>

definition digit_char :: "nat \<Rightarrow> char" where
  "digit_char d =
     (if d = 0 then CHR ''0'' else if d = 1 then CHR ''1'' else if d = 2 then CHR ''2''
      else if d = 3 then CHR ''3'' else if d = 4 then CHR ''4'' else if d = 5 then CHR ''5''
      else if d = 6 then CHR ''6'' else if d = 7 then CHR ''7'' else if d = 8 then CHR ''8''
      else CHR ''9'')"

fun str_nat :: "nat \<Rightarrow> string" where
  "str_nat n = (if n < 10 then [digit_char n] else str_nat (n div 10) @ [digit_char (n mod 10)])"

declare str_nat.simps [simp del]

definition str_int :: "int \<Rightarrow> string" where
  "str_int i = (if i < 0 then CHR ''-'' # str_nat (nat (- i)) else str_nat (nat i))"

fun join_with :: "string \<Rightarrow> string list \<Rightarrow> string" where
  "join_with sep [] = []"
| "join_with sep [x] = x"
| "join_with sep (x # y # ys) = x @ sep @ join_with sep (y # ys)"

subsection \<open>The statement\<close>

text \<open>One row of the \<^verbatim>\<open>FROM\<close> clause: the vehicle and what the four left joins attach to it.\<close>

record joined =
  j_v :: vehicle
  j_vc :: "vehicle_color option"
  j_st :: "sale_transaction option"
  j_pt :: "purchase_transaction option"
  j_po_aggregated :: "(string \<times> decimal) option"

text \<open>
  \<^verbatim>\<open>SELECT vehicle_identification_number, SUM(total_cost) FROM PartsOrder GROUP BY
  vehicle_identification_number\<close>.
\<close>

definition po_aggregated :: "database \<Rightarrow> (string \<times> decimal) list" where
  "po_aggregated db =
     map (\<lambda>(po, pos). (po_vehicle_identification_number po, sum_list (map total_cost pos)))
       (group_by po_vehicle_identification_number (PartsOrder db))"

text \<open>
  The predicates the function can append, and the clause as the sequence of pieces the
  string concatenation produces.
\<close>

datatype cond =
    SalePriceIsNull
  | SalePriceIsNotNull
  | NoPendingParts
  | OneEqOne
  | VehicleTypeEq string
  | ManufacturerEq string
  | YearEq int
  | FuelTypeEq string
  | ColorEq string
  | KeywordLike string
  | VinEq string

datatype token = TokWhere | TokAnd | TokCond cond

datatype error = ProgrammingError | KeyError | IntegrityError

text \<open>
  The rows of \<^verbatim>\<open>Part INNER JOIN PartsOrder\<close> for a vehicle with a status other than Installed:
  the subquery under \<^verbatim>\<open>NOT EXISTS\<close>.
\<close>

definition pending_parts :: "database \<Rightarrow> string \<Rightarrow> (part \<times> parts_order) list" where
  "pending_parts db vin =
     filter (\<lambda>(p, po_sub). po_vehicle_identification_number po_sub = vin \<and> status p \<noteq> ''Installed'')
       (inner_join (Part db) (PartsOrder db) (\<lambda>p po_sub. p_order_number p = order_number po_sub))"

text \<open>
  Whether a predicate is true of a joined row (a comparison with a \<^verbatim>\<open>NULL\<close> of a left join is
  not true, and \<^verbatim>\<open>WHERE\<close> keeps the rows whose predicate is true).
\<close>

fun eval_cond :: "database \<Rightarrow> joined \<Rightarrow> cond \<Rightarrow> bool" where
  "eval_cond db j SalePriceIsNull = (j_st j = None)"
| "eval_cond db j SalePriceIsNotNull = (j_st j \<noteq> None)"
| "eval_cond db j NoPendingParts = (pending_parts db (vehicle_identification_number (j_v j)) = [])"
| "eval_cond db j OneEqOne = True"
| "eval_cond db j (VehicleTypeEq x) = (vehicle_type (j_v j) = x)"
| "eval_cond db j (ManufacturerEq x) = (manufacturer_name (j_v j) = x)"
| "eval_cond db j (YearEq n) = (year (j_v j) = n)"
| "eval_cond db j (FuelTypeEq x) = (fuel_type (j_v j) = x)"
| "eval_cond db j (ColorEq x) = (case j_vc j of None \<Rightarrow> False | Some c \<Rightarrow> color_name c = x)"
| "eval_cond db j (KeywordLike k) =
     (sql_like (manufacturer_name (j_v j)) k \<or> sql_like (model_name (j_v j)) k \<or>
      sql_like (str_int (year (j_v j))) k \<or> sql_like (description (j_v j)) k)"
| "eval_cond db j (VinEq x) = (vehicle_identification_number (j_v j) = x)"

text \<open>
  The \<^verbatim>\<open>FROM\<close> clause. The text of the statement ends with the \<^verbatim>\<open>ON\<close> condition of the
  last join, so predicates appended with \<^verbatim>\<open>AND\<close> before any \<^verbatim>\<open>WHERE\<close> are part of that
  condition: they decide whether the aggregated parts cost is attached to a row, not
  whether the row is selected.
\<close>

definition from_clause :: "database \<Rightarrow> cond list \<Rightarrow> joined list" where
  "from_clause db on_conds =
     map (\<lambda>((((v, c), s), p), a).
            \<lparr>j_v = v, j_vc = c, j_st = s, j_pt = p, j_po_aggregated = a\<rparr>)
       (left_join
         (left_join
           (left_join
             (left_join (Vehicle db) (VehicleColor db)
               (\<lambda>v c. vehicle_identification_number v = vc_vehicle_identification_number c))
             (SaleTransaction db)
             (\<lambda>(v, c) s. vehicle_identification_number v = st_vehicle_identification_number s))
           (PurchaseTransaction db)
           (\<lambda>((v, c), s) p. vehicle_identification_number v = pt_vehicle_identification_number p))
         (po_aggregated db)
         (\<lambda>(((v, c), s), p) a.
             vehicle_identification_number v = fst a \<and>
             list_all (eval_cond db
               \<lparr>j_v = v, j_vc = c, j_st = s, j_pt = p, j_po_aggregated = Some a\<rparr>) on_conds))"

text \<open>
  What the engine reads between the \<^verbatim>\<open>ON\<close> condition of the last join and \<^verbatim>\<open>GROUP BY\<close>:
  any number of \<^verbatim>\<open>AND\<close> and a predicate, which continue the \<^verbatim>\<open>ON\<close> condition, and then
  nothing or \<^verbatim>\<open>WHERE\<close> and a predicate followed by any number of \<^verbatim>\<open>AND\<close> and a
  predicate. The result is the pair of the predicates of the \<^verbatim>\<open>ON\<close> condition and those of
  the \<^verbatim>\<open>WHERE\<close> clause. Anything else is a syntax error, which the driver raises.
\<close>

fun parse_ands :: "token list \<Rightarrow> error + cond list" where
  "parse_ands [] = Inr []"
| "parse_ands (TokAnd # TokCond c # ts) =
     (case parse_ands ts of Inl e \<Rightarrow> Inl e | Inr cs \<Rightarrow> Inr (c # cs))"
| "parse_ands ts = Inl ProgrammingError"

fun parse_after_joins :: "token list \<Rightarrow> error + cond list \<times> cond list" where
  "parse_after_joins [] = Inr ([], [])"
| "parse_after_joins (TokAnd # TokCond c # ts) =
     (case parse_after_joins ts of
        Inl e \<Rightarrow> Inl e
      | Inr (on_conds, where_conds) \<Rightarrow> Inr (c # on_conds, where_conds))"
| "parse_after_joins (TokWhere # TokCond c # ts) =
     (case parse_ands ts of Inl e \<Rightarrow> Inl e | Inr cs \<Rightarrow> Inr ([], c # cs))"
| "parse_after_joins ts = Inl ProgrammingError"

text \<open>A cell of a result set or of a data frame.\<close>

datatype cell = CStr string | CInt int | CDec decimal | CDate date | CNull

text \<open>The columns of \<^verbatim>\<open>GROUP BY\<close>.\<close>

definition group_key ::
  "joined \<Rightarrow> string \<times> string \<times> string \<times> string \<times> int \<times> string \<times> int \<times>
     decimal option \<times> date option \<times> decimal option \<times> string" where
  "group_key j =
     (vehicle_identification_number (j_v j), vehicle_type (j_v j), manufacturer_name (j_v j),
      model_name (j_v j), year (j_v j), fuel_type (j_v j), horsepower (j_v j),
      map_option sale_price (j_st j), map_option purchased_on (j_pt j),
      map_option purchase_price (j_pt j), description (j_v j))"

text \<open>
  \<^verbatim>\<open>GROUP_CONCAT(DISTINCT vc.color_name SEPARATOR ', ')\<close> over the rows of a group. The
  statement gives no order; the engine hands the distinct values over in ascending order.
\<close>

definition group_concat_colors :: "joined list \<Rightarrow> cell" where
  "group_concat_colors g =
     (case sort (remdups (List.map_filter (\<lambda>j. map_option color_name (j_vc j)) g)) of
        [] \<Rightarrow> CNull
      | c # cs \<Rightarrow> CStr (join_with '', '' (c # cs)))"

text \<open>The \<^verbatim>\<open>CASE\<close> expression of the \<^verbatim>\<open>SalePrice\<close> column.\<close>

definition sale_price_expr :: "joined \<Rightarrow> cell" where
  "sale_price_expr j =
     (case j_st j of
        Some s \<Rightarrow> CDec (sale_price s)
      | None \<Rightarrow>
          (case j_pt j of
             None \<Rightarrow> CNull
           | Some p \<Rightarrow>
               CDec (sql_round2 (125 / 100 * purchase_price p +
                 11 / 10 * (case j_po_aggregated j of None \<Rightarrow> 0 | Some a \<Rightarrow> snd a)))))"

text \<open>
  The select list, for a group \<open>g\<close> with first row \<open>j\<close>. The parts cost is no
  grouping column and no aggregate; it is read off the first row of the group.
\<close>

definition select_list :: "joined \<times> joined list \<Rightarrow> cell list" where
  "select_list jg =
     (let j = fst jg; g = snd jg in
      [CStr (vehicle_identification_number (j_v j)),
       CStr (vehicle_type (j_v j)),
       CStr (manufacturer_name (j_v j)),
       CStr (model_name (j_v j)),
       CInt (year (j_v j)),
       CStr (fuel_type (j_v j)),
       group_concat_colors g,
       CInt (horsepower (j_v j)),
       sale_price_expr j,
       (case j_pt j of None \<Rightarrow> CNull | Some p \<Rightarrow> CDec (purchase_price p)),
       (case j_pt j of None \<Rightarrow> CNull | Some p \<Rightarrow> CDate (purchased_on p)),
       CDec (sql_round2 (case j_po_aggregated j of None \<Rightarrow> 0 | Some a \<Rightarrow> snd a)),
       CStr (description (j_v j))])"

text \<open>
  The rows the statement selects, given the predicates that continue the last \<^verbatim>\<open>ON\<close>
  condition and those of its \<^verbatim>\<open>WHERE\<close> clause, and their groups in the order of the result.
\<close>

definition selected :: "database \<Rightarrow> cond list \<Rightarrow> cond list \<Rightarrow> joined list" where
  "selected db on_conds where_conds =
     filter (\<lambda>j. list_all (eval_cond db j) where_conds) (from_clause db on_conds)"

definition grouped ::
  "database \<Rightarrow> cond list \<Rightarrow> cond list \<Rightarrow> (joined \<times> joined list) list" where
  "grouped db on_conds where_conds =
     sort_key (\<lambda>jg. vehicle_identification_number (j_v (fst jg)))
       (group_by group_key (selected db on_conds where_conds))"

text \<open>\<^verbatim>\<open>session.execute(query, params).fetchall()\<close>.\<close>

definition execute_search :: "database \<Rightarrow> token list \<Rightarrow> error + cell list list" where
  "execute_search db query =
     (case parse_after_joins query of
        Inl e \<Rightarrow> Inl e
      | Inr (on_conds, where_conds) \<Rightarrow>
          Inr (map select_list (grouped db on_conds where_conds)))"

subsection \<open>Data frames\<close>

record dataframe =
  columns :: "string list"
  data :: "cell list list"

fun index_of :: "'a \<Rightarrow> 'a list \<Rightarrow> nat option" where
  "index_of x [] = None"
| "index_of x (y # ys) = (if x = y then Some 0 else map_option Suc (index_of x ys))"

fun nth_opt :: "'a list \<Rightarrow> nat \<Rightarrow> 'a option" where
  "nth_opt [] n = None"
| "nth_opt (x # xs) 0 = Some x"
| "nth_opt (x # xs) (Suc n) = nth_opt xs n"

text \<open>The cell of a row under a column name.\<close>

definition cell_of :: "string list \<Rightarrow> cell list \<Rightarrow> string \<Rightarrow> cell option" where
  "cell_of cols row name =
     (case index_of name cols of None \<Rightarrow> None | Some i \<Rightarrow> nth_opt row i)"

text \<open>\<^verbatim>\<open>df[[names]]\<close>: a name that is no column raises \<^verbatim>\<open>KeyError\<close>.\<close>

definition select_columns :: "dataframe \<Rightarrow> string list \<Rightarrow> error + dataframe" where
  "select_columns df names =
     (if list_all (\<lambda>n. n \<in> set (columns df)) names
      then Inr \<lparr>columns = names,
                data = map (\<lambda>row. List.map_filter (cell_of (columns df) row) names) (data df)\<rparr>
      else Inl KeyError)"

definition all_columns :: "string list" where
  "all_columns =
     [''VIN'', ''VehicleType'', ''Manufacturer'', ''Model'', ''Year'', ''FuelType'', ''Colors'',
      ''Horsepower'', ''SalePrice'', ''PurchasePrice'', ''PurchaseDate'', ''TotalPartsCost'',
      ''Description'']"

definition public_columns :: "string list" where
  "public_columns =
     [''VIN'', ''VehicleType'', ''Manufacturer'', ''Model'', ''Year'', ''FuelType'', ''Colors'',
      ''Horsepower'', ''SalePrice'']"

definition clerk_columns :: "string list" where
  "clerk_columns =
     [''VIN'', ''VehicleType'', ''Manufacturer'', ''Model'', ''Year'', ''FuelType'', ''Colors'',
      ''Horsepower'', ''PurchasePrice'', ''TotalPartsCost'']"

subsection \<open>\<^verbatim>\<open>search_vehicles\<close>\<close>

text \<open>
  The arguments. \<^verbatim>\<open>None\<close> is \<^term>\<open>None\<close>; the year is an integer or the form's
  sentinel \<^verbatim>\<open>"Any"\<close>.
\<close>

datatype year_arg = YearInt int | YearAny

record search_args =
  a_vehicle_type :: "string option"
  a_manufacturer :: "string option"
  a_year :: "year_arg option"
  a_fuel_type :: "string option"
  a_color :: "string option"
  a_keyword :: "string option"
  a_vin :: "string option"
  a_vehicle_status :: "string option"
  a_role :: string

text \<open>The role branch: what is appended after the joins.\<close>

definition role_filter :: "string \<Rightarrow> string option \<Rightarrow> token list" where
  "role_filter role vehicle_status =
     (if role \<in> set [''Public'', ''Salesperson'']
      then [TokWhere, TokCond SalePriceIsNull, TokAnd, TokCond NoPendingParts]
      else if role = ''Inventory clerk'' then [TokWhere, TokCond SalePriceIsNull]
      else if role \<in> set [''Manager'', ''Owner''] then
        (if vehicle_status = Some ''Sold'' then [TokWhere, TokCond SalePriceIsNotNull]
         else if vehicle_status = Some ''Unsold'' then [TokWhere, TokCond SalePriceIsNull]
         else [TokWhere, TokCond OneEqOne])
      else [])"

text \<open>\<^verbatim>\<open>if x and x != "Any": query += " AND ..."\<close>, for a string argument.\<close>

definition any_filter :: "(string \<Rightarrow> cond) \<Rightarrow> string option \<Rightarrow> token list" where
  "any_filter mk arg =
     (case arg of
        None \<Rightarrow> []
      | Some x \<Rightarrow> if x \<noteq> [] \<and> x \<noteq> ''Any'' then [TokAnd, TokCond (mk x)] else [])"

text \<open>The same for the year: the integer 0 is falsy.\<close>

definition year_filter :: "year_arg option \<Rightarrow> token list" where
  "year_filter arg =
     (case arg of
        None \<Rightarrow> []
      | Some YearAny \<Rightarrow> []
      | Some (YearInt n) \<Rightarrow> if n \<noteq> 0 then [TokAnd, TokCond (YearEq n)] else [])"

text \<open>\<^verbatim>\<open>if x: query += " AND ..."\<close>.\<close>

definition plain_filter :: "(string \<Rightarrow> cond) \<Rightarrow> string option \<Rightarrow> token list" where
  "plain_filter mk arg =
     (case arg of
        None \<Rightarrow> []
      | Some x \<Rightarrow> if x \<noteq> [] then [TokAnd, TokCond (mk x)] else [])"

definition dynamic_filters :: "search_args \<Rightarrow> token list" where
  "dynamic_filters a =
     any_filter VehicleTypeEq (a_vehicle_type a) @
     any_filter ManufacturerEq (a_manufacturer a) @
     year_filter (a_year a) @
     any_filter FuelTypeEq (a_fuel_type a) @
     any_filter ColorEq (a_color a) @
     plain_filter (\<lambda>k. KeywordLike (''%'' @ k @ ''%'')) (a_keyword a) @
     plain_filter VinEq (a_vin a)"

definition search_vehicles :: "database \<Rightarrow> search_args \<Rightarrow> error + dataframe" where
  "search_vehicles db a =
     (let query = role_filter (a_role a) (a_vehicle_status a) @ dynamic_filters a in
      case execute_search db query of
        Inl e \<Rightarrow> Inl e
      | Inr results \<Rightarrow>
          (let df = \<lparr>columns = all_columns, data = results\<rparr> in
           if a_role a = ''Public'' \<or> a_role a = ''Salesperson''
           then select_columns df public_columns
           else if a_role a = ''Inventory clerk'' then select_columns df clerk_columns
           else if a_role a \<in> set [''Manager'', ''Owner''] then Inr df
           else Inr df))"

section \<open>Vehicle counts\<close>

text \<open>
  \<^verbatim>\<open>count_cars_with_pending_parts\<close>: \<^verbatim>\<open>COUNT(DISTINCT v.vehicle_identification_number)\<close> over
  \<^verbatim>\<open>Vehicle INNER JOIN PartsOrder INNER JOIN Part\<close>, for parts not Installed and vehicles
  \<^verbatim>\<open>NOT IN (SELECT vehicle_identification_number FROM SaleTransaction)\<close>.
\<close>

definition count_cars_with_pending_parts :: "database \<Rightarrow> nat" where
  "count_cars_with_pending_parts db =
     length (remdups (map (\<lambda>((v, po), p). vehicle_identification_number v)
       (filter (\<lambda>((v, po), p). status p \<noteq> ''Installed'' \<and>
                  vehicle_identification_number v
                    \<notin> set (map st_vehicle_identification_number (SaleTransaction db)))
          (inner_join
             (inner_join (Vehicle db) (PartsOrder db)
                (\<lambda>v po. vehicle_identification_number v = po_vehicle_identification_number po))
             (Part db)
             (\<lambda>(v, po) p. order_number po = p_order_number p)))))"

text \<open>
  \<^verbatim>\<open>count_available_cars\<close>: the same count over \<^verbatim>\<open>Vehicle LEFT JOIN PartsOrder\<close>, for
  vehicles with no pending part (\<^verbatim>\<open>NOT EXISTS\<close>) and no sale.
\<close>

definition count_available_cars :: "database \<Rightarrow> nat" where
  "count_available_cars db =
     length (remdups (map (\<lambda>(v, po). vehicle_identification_number v)
       (filter (\<lambda>(v, po). pending_parts db (vehicle_identification_number v) = [] \<and>
                  vehicle_identification_number v
                    \<notin> set (map st_vehicle_identification_number (SaleTransaction db)))
          (left_join (Vehicle db) (PartsOrder db)
             (\<lambda>v po. vehicle_identification_number v = po_vehicle_identification_number po)))))"

definition get_vehicle_counts :: "database \<Rightarrow> nat \<times> nat" where
  "get_vehicle_counts db = (count_available_cars db, count_cars_with_pending_parts db)"

section \<open>Adding a parts order\<close>

text \<open>
  The prices of the supplied parts are Python floats. Their arithmetic is not that of an
  exact decimal, so it is a parameter of the model: the conversion of an integer, addition,
  multiplication, \<^verbatim>\<open>round(x, 2)\<close>, and the value a decimal column stores for a float.
\<close>

record 'f py_float =
  float_of_int :: "int \<Rightarrow> 'f"
  float_add :: "'f \<Rightarrow> 'f \<Rightarrow> 'f"
  float_mul :: "'f \<Rightarrow> 'f \<Rightarrow> 'f"
  float_round2 :: "'f \<Rightarrow> 'f"
  float_to_decimal :: "'f \<Rightarrow> decimal"

text \<open>The dictionaries of the \<^verbatim>\<open>parts\<close> argument, with the keys the function reads.\<close>

record 'f part_input =
  vendor_part_number :: string
  part_description :: string
  part_quantity :: int
  part_status :: string
  part_unit_price :: "'f"

text \<open>Python's \<^verbatim>\<open>sum\<close>: a left fold from the integer 0.\<close>

definition py_sum :: "'f py_float \<Rightarrow> 'f list \<Rightarrow> 'f" where
  "py_sum fl xs = foldl (float_add fl) (float_of_int fl 0) xs"

text \<open>Python's \<^verbatim>\<open>s.zfill(width)\<close> for a string of digits.\<close>

definition zfill :: "nat \<Rightarrow> string \<Rightarrow> string" where
  "zfill width s = replicate (width - length s) (CHR ''0'') @ s"

text \<open>
  Modelled from the spec: the constraints of the schema, which is not among the sources.
  An \<^verbatim>\<open>INSERT\<close> raises on a duplicate key (order_number for PartsOrder, order_number with
  vendor_parts_number for Part) and on a reference to a row that does not exist (a parts
  order belongs to one vehicle and one vendor, a part to one parts order).
\<close>

definition insert_parts_order :: "database \<Rightarrow> parts_order \<Rightarrow> error + database" where
  "insert_parts_order db row =
     (if order_number row \<in> set (map order_number (PartsOrder db)) \<or>
         po_vehicle_identification_number row
           \<notin> set (map vehicle_identification_number (Vehicle db)) \<or>
         po_name row \<notin> set (Vendor db)
      then Inl IntegrityError
      else Inr (db\<lparr>PartsOrder := PartsOrder db @ [row]\<rparr>))"

text \<open>
  Modelled from the spec: the key of a part and its reference to a parts order, for the
  \<^verbatim>\<open>INSERT INTO Part\<close> of step 4.
\<close>

definition insert_part :: "database \<Rightarrow> part \<Rightarrow> error + database" where
  "insert_part db row =
     (if part_key row \<in> set (map part_key (Part db)) \<or>
         p_order_number row \<notin> set (map order_number (PartsOrder db))
      then Inl IntegrityError
      else Inr (db\<lparr>Part := Part db @ [row]\<rparr>))"

text \<open>The row that step 4 inserts for one supplied part.\<close>

definition part_row :: "'f py_float \<Rightarrow> string \<Rightarrow> 'f part_input \<Rightarrow> part" where
  "part_row fl order_no p =
     \<lparr>p_order_number = order_no,
      vendor_parts_number = vendor_part_number p,
      p_description = part_description p,
      quantity = part_quantity p,
      status = part_status p,
      unit_price = float_to_decimal fl (part_unit_price p)\<rparr>"

text \<open>The loop of step 4: it stops at the first insert that raises.\<close>

fun insert_parts :: "'f py_float \<Rightarrow> string \<Rightarrow> database \<Rightarrow> 'f part_input list \<Rightarrow> error + database" where
  "insert_parts fl order_no db [] = Inr db"
| "insert_parts fl order_no db (p # ps) =
     (case insert_part db (part_row fl order_no p) of
        Inl e \<Rightarrow> Inl e
      | Inr db' \<Rightarrow> insert_parts fl order_no db' ps)"

text \<open>\<^verbatim>\<open>SELECT COUNT(*) FROM PartsOrder WHERE vehicle_identification_number = :vin\<close>.\<close>

definition count_orders :: "database \<Rightarrow> string \<Rightarrow> nat" where
  "count_orders db vin =
     length (filter (\<lambda>po. po_vehicle_identification_number po = vin) (PartsOrder db))"

text \<open>Steps 1 and 2 of \<^verbatim>\<open>add_parts_order\<close>: the order number and the total cost.\<close>

definition next_order_number :: "database \<Rightarrow> string \<Rightarrow> string" where
  "next_order_number db vin =
     (let count = count_orders db vin;
          sequential_number = count + 1
      in vin @ ''-'' @ zfill 3 (str_nat sequential_number))"

definition parts_total_cost :: "'f py_float \<Rightarrow> 'f part_input list \<Rightarrow> 'f" where
  "parts_total_cost fl parts =
     float_round2 fl
       (py_sum fl (map (\<lambda>part. float_mul fl (part_unit_price part)
                                  (float_of_int fl (part_quantity part))) parts))"

text \<open>
  \<^verbatim>\<open>add_parts_order(vin, vendor_name, parts)\<close>: an exception of an insert rolls the session
  back and the function returns false; otherwise the session is committed.
\<close>

definition add_parts_order ::
  "'f py_float \<Rightarrow> string \<Rightarrow> string \<Rightarrow> 'f part_input list \<Rightarrow> database \<Rightarrow> bool \<times> database" where
  "add_parts_order fl vin vendor_name parts db =
     (let order_no = next_order_number db vin;
          total = parts_total_cost fl parts
      in case insert_parts_order db
                \<lparr>po_vehicle_identification_number = vin, po_name = vendor_name,
                 order_number = order_no, total_cost = float_to_decimal fl total\<rparr> of
           Inl e \<Rightarrow> (False, db)
         | Inr db1 \<Rightarrow>
             (case insert_parts fl order_no db1 parts of
                Inl e \<Rightarrow> (False, db)
              | Inr db2 \<Rightarrow> (True, db2)))"

section \<open>Average inventory time\<close>

text \<open>
  The joins of \<^verbatim>\<open>average_inventory_time_report\<close>:
  \<^verbatim>\<open>Vehicle JOIN VehicleType LEFT JOIN PurchaseTransaction LEFT JOIN SaleTransaction\<close>.
\<close>

type_synonym avt_row =
  "((vehicle \<times> string) \<times> purchase_transaction option) \<times> sale_transaction option"

definition avt_from :: "database \<Rightarrow> avt_row list" where
  "avt_from db =
     left_join
       (left_join
          (inner_join (Vehicle db) (VehicleType db) (\<lambda>v vt. vehicle_type v = vt))
          (PurchaseTransaction db)
          (\<lambda>(v, vt) pt. vehicle_identification_number v = pt_vehicle_identification_number pt))
       (SaleTransaction db)
       (\<lambda>((v, vt), pt) st. vehicle_identification_number v = st_vehicle_identification_number st)"

definition avt_type :: "avt_row \<Rightarrow> string" where
  "avt_type r = snd (fst (fst r))"

text \<open>\<^verbatim>\<open>COUNT(st.sold_on)\<close> over a group: the rows that carry a sale.\<close>

definition count_sold_on :: "avt_row list \<Rightarrow> nat" where
  "count_sold_on g = length (filter (\<lambda>r. snd r \<noteq> None) g)"

text \<open>
  \<^verbatim>\<open>DATEDIFF(st.sold_on, pt.purchased_on) + 1\<close> of a row, \<^verbatim>\<open>NULL\<close> when either side is
  missing; the aggregate \<^verbatim>\<open>AVG\<close> skips the \<^verbatim>\<open>NULL\<close>s and is \<^verbatim>\<open>NULL\<close> over none.
\<close>

definition days_in_inventory :: "avt_row \<Rightarrow> int option" where
  "days_in_inventory r =
     (case (snd r, snd (fst r)) of
        (Some st, Some pt) \<Rightarrow> Some (sold_on st - purchased_on pt + 1)
      | _ \<Rightarrow> None)"

definition sql_avg :: "int list \<Rightarrow> decimal option" where
  "sql_avg xs = (if xs = [] then None else Some (of_int (sum_list xs) / of_nat (length xs)))"

text \<open>
  The \<^verbatim>\<open>CASE\<close> expression of \<^verbatim>\<open>AvgInventoryTime\<close> (the engine hands the number over in
  the text type it shares with \<^verbatim>\<open>'N/A'\<close>; the cell keeps its value).
\<close>

definition avg_inventory_time :: "avt_row list \<Rightarrow> cell" where
  "avg_inventory_time g =
     (if count_sold_on g = 0 then CStr ''N/A''
      else (case sql_avg (List.map_filter days_in_inventory g) of
              None \<Rightarrow> CNull
            | Some m \<Rightarrow> CDec (sql_round2 m)))"

definition average_inventory_time_report :: "database \<Rightarrow> dataframe" where
  "average_inventory_time_report db =
     \<lparr>columns = [''Vehicle Type'', ''Avg Inventory Time''],
      data = map (\<lambda>(r, g). [CStr (avt_type r), avg_inventory_time g])
               (sort_key (\<lambda>(r, g). avt_type r) (group_by avt_type (avt_from db)))\<rparr>"

section \<open>The vocabulary of the specification\<close>

text \<open>
  The notions the specification states its properties with, each read off the tables
  directly; the theorems below relate them to what the statements compute.
\<close>

text \<open>A vehicle is sold when a sale transaction carries its identification number.\<close>

definition has_sale :: "database \<Rightarrow> string \<Rightarrow> bool" where
  "has_sale db vin \<longleftrightarrow> vin \<in> st_vehicle_identification_number ` set (SaleTransaction db)"

definition has_purchase :: "database \<Rightarrow> string \<Rightarrow> bool" where
  "has_purchase db vin \<longleftrightarrow> vin \<in> pt_vehicle_identification_number ` set (PurchaseTransaction db)"

text \<open>
  A vehicle has a pending part when a part of one of its parts orders has a status other
  than Installed.
\<close>

definition has_pending_part :: "database \<Rightarrow> string \<Rightarrow> bool" where
  "has_pending_part db vin \<longleftrightarrow>
     (\<exists>p \<in> set (Part db). \<exists>po \<in> set (PartsOrder db).
        p_order_number p = order_number po \<and> po_vehicle_identification_number po = vin \<and>
        status p \<noteq> ''Installed'')"

text \<open>The total parts cost of a vehicle: the sum over its parts orders, 0 without any.\<close>

definition total_parts_cost :: "database \<Rightarrow> string \<Rightarrow> decimal" where
  "total_parts_cost db vin =
     sum_list (map total_cost
       (filter (\<lambda>po. po_vehicle_identification_number po = vin) (PartsOrder db)))"

text \<open>The parts orders recorded for a vehicle, in the order of the table.\<close>

definition orders_of :: "database \<Rightarrow> string \<Rightarrow> parts_order list" where
  "orders_of db vin =
     filter (\<lambda>po. po_vehicle_identification_number po = vin) (PartsOrder db)"

text \<open>A number below 1000 written with exactly three decimal digits.\<close>

definition decimal_digit :: "nat \<Rightarrow> char" where
  "decimal_digit d = ''0123456789'' ! d"

definition three_digits :: "nat \<Rightarrow> string" where
  "three_digits n =
     [decimal_digit (n div 100), decimal_digit (n div 10 mod 10), decimal_digit (n mod 10)]"

text \<open>
  No filter is in effect: each argument is missing, empty (falsy in Python, as is the year
  0), or, for the five equality filters, the sentinel \<^verbatim>\<open>"Any"\<close>.
\<close>

definition no_filters :: "search_args \<Rightarrow> bool" where
  "no_filters a \<longleftrightarrow>
     a_vehicle_type a \<in> {None, Some [], Some ''Any''} \<and>
     a_manufacturer a \<in> {None, Some [], Some ''Any''} \<and>
     a_year a \<in> {None, Some YearAny, Some (YearInt 0)} \<and>
     a_fuel_type a \<in> {None, Some [], Some ''Any''} \<and>
     a_color a \<in> {None, Some [], Some ''Any''} \<and>
     a_keyword a \<in> {None, Some []} \<and>
     a_vin a \<in> {None, Some []}"

text \<open>The identification numbers in the \<^verbatim>\<open>VIN\<close> column of a frame.\<close>

definition vins_of :: "dataframe \<Rightarrow> string set" where
  "vins_of df = {vin. \<exists>row \<in> set (data df). cell_of (columns df) row ''VIN'' = Some (CStr vin)}"

text \<open>
  Modelled from the spec: the primary keys of the schema, which is not among the sources.
  A vehicle is keyed by its identification number, a vehicle type by its name, and a
  vehicle has at most one purchase and at most one sale.
\<close>

definition well_keyed :: "database \<Rightarrow> bool" where
  "well_keyed db \<longleftrightarrow>
     distinct (map vehicle_identification_number (Vehicle db)) \<and>
     distinct (VehicleType db) \<and>
     distinct (map pt_vehicle_identification_number (PurchaseTransaction db)) \<and>
     distinct (map st_vehicle_identification_number (SaleTransaction db))"

text \<open>
  The average inventory time in the words of the specification: over the sold vehicles of a
  type, the mean of the days from purchase to sale plus one, rounded to two decimals, and
  \<^verbatim>\<open>'N/A'\<close> for a type with no sold vehicle. A sold vehicle without a purchase has no
  such number of days and is left out of the mean; when that leaves no vehicle of a type
  that has sold ones, there is nothing to average and the value is \<^verbatim>\<open>NULL\<close>.
\<close>

definition sold_vehicles_of_type :: "database \<Rightarrow> string \<Rightarrow> vehicle list" where
  "sold_vehicles_of_type db t =
     filter (\<lambda>v. vehicle_type v = t \<and> has_sale db (vehicle_identification_number v)) (Vehicle db)"

definition inventory_days :: "database \<Rightarrow> vehicle \<Rightarrow> int option" where
  "inventory_days db v =
     (case (find (\<lambda>s. vehicle_identification_number v = st_vehicle_identification_number s)
              (SaleTransaction db),
            find (\<lambda>p. vehicle_identification_number v = pt_vehicle_identification_number p)
              (PurchaseTransaction db)) of
        (Some s, Some p) \<Rightarrow> Some (sold_on s - purchased_on p + 1)
      | _ \<Rightarrow> None)"

definition mean_inventory_time :: "database \<Rightarrow> string \<Rightarrow> cell" where
  "mean_inventory_time db t =
     (let sold = sold_vehicles_of_type db t;
          days = List.map_filter (inventory_days db) sold
      in if sold = [] then CStr ''N/A''
         else if days = [] then CNull
         else CDec (sql_round2 (of_int (sum_list days) / of_nat (length days))))"

text \<open>The vehicle types the report lists: those of the type table with a vehicle, in order.\<close>

definition reported_types :: "database \<Rightarrow> string list" where
  "reported_types db =
     sort (filter (\<lambda>t. t \<in> vehicle_type ` set (Vehicle db)) (VehicleType db))"

section \<open>Auxiliary notions of the proofs\<close>

text \<open>What a left join may attach to a row: a matching row, or nothing when none matches.\<close>

definition opt_match :: "'b list \<Rightarrow> ('b \<Rightarrow> bool) \<Rightarrow> 'b option \<Rightarrow> bool" where
  "opt_match ys P m = (case m of None \<Rightarrow> \<forall>y \<in> set ys. \<not> P y | Some y \<Rightarrow> y \<in> set ys \<and> P y)"

text \<open>The pieces that a list of filters in effect appends.\<close>

definition and_tokens :: "cond list \<Rightarrow> token list" where
  "and_tokens cs = concat (map (\<lambda>c. [TokAnd, TokCond c]) cs)"

text \<open>The frame \<^verbatim>\<open>search_vehicles\<close> returns for a role, from the rows of the statement.\<close>

definition frame :: "string \<Rightarrow> cell list list \<Rightarrow> dataframe" where
  "frame role rs =
     (if role = ''Public'' \<or> role = ''Salesperson''
      then \<lparr>columns = public_columns,
            data = map (\<lambda>row. List.map_filter (cell_of all_columns row) public_columns) rs\<rparr>
      else if role = ''Inventory clerk''
      then \<lparr>columns = clerk_columns,
            data = map (\<lambda>row. List.map_filter (cell_of all_columns row) clerk_columns) rs\<rparr>
      else \<lparr>columns = all_columns, data = rs\<rparr>)"

text \<open>The one row of the report's joins for a vehicle, when the keys are unique.\<close>

definition avt_of :: "database \<Rightarrow> vehicle \<Rightarrow> avt_row" where
  "avt_of db v =
     (((v, vehicle_type v),
       find (\<lambda>p. vehicle_identification_number v = pt_vehicle_identification_number p)
         (PurchaseTransaction db)),
      find (\<lambda>s. vehicle_identification_number v = st_vehicle_identification_number s)
        (SaleTransaction db))"

section \<open>An example database\<close>

text \<open>
  Three vehicles: a truck with a part still to install, a sedan whose parts are installed
  (the spec's scenario: bought for 10000, one parts order of 500), and a sold sedan. The
  asking price of the truck, 1.25 * 8000.03 + 1.1 * 250.5 = 10275.5875, needs rounding.
\<close>

definition example_db :: database where
  "example_db =
     \<lparr>Vehicle =
        [\<lparr>vehicle_identification_number = ''3FAHP0HA7AR654321'', vehicle_type = ''Truck'',
          manufacturer_name = ''Ford'', model_name = ''F-150'', year = 2010, fuel_type = ''Diesel'',
          horsepower = 300, condition = ''Fair'', description = ''work truck''\<rparr>,
         \<lparr>vehicle_identification_number = ''1HGCM82633A004352'', vehicle_type = ''Sedan'',
          manufacturer_name = ''Honda'', model_name = ''Accord'', year = 2003, fuel_type = ''Gas'',
          horsepower = 160, condition = ''Good'', description = ''one owner''\<rparr>,
         \<lparr>vehicle_identification_number = ''2T1BURHE5JC123456'', vehicle_type = ''Sedan'',
          manufacturer_name = ''Toyota'', model_name = ''Corolla'', year = 2018, fuel_type = ''Gas'',
          horsepower = 139, condition = ''Excellent'', description = ''low miles''\<rparr>],
      VehicleColor =
        [\<lparr>vc_vehicle_identification_number = ''1HGCM82633A004352'', color_name = ''Red''\<rparr>,
         \<lparr>vc_vehicle_identification_number = ''1HGCM82633A004352'', color_name = ''Black''\<rparr>,
         \<lparr>vc_vehicle_identification_number = ''2T1BURHE5JC123456'', color_name = ''White''\<rparr>],
      SaleTransaction =
        [\<lparr>st_vehicle_identification_number = ''2T1BURHE5JC123456'', sale_price = 20000,
          sold_on = 120\<rparr>],
      PurchaseTransaction =
        [\<lparr>pt_vehicle_identification_number = ''1HGCM82633A004352'', purchase_price = 10000,
          purchased_on = 100\<rparr>,
         \<lparr>pt_vehicle_identification_number = ''2T1BURHE5JC123456'', purchase_price = 15000,
          purchased_on = 90\<rparr>,
         \<lparr>pt_vehicle_identification_number = ''3FAHP0HA7AR654321'', purchase_price = 8000.03,
          purchased_on = 110\<rparr>],
      PartsOrder =
        [\<lparr>po_vehicle_identification_number = ''1HGCM82633A004352'', po_name = ''Acme'',
          order_number = ''1HGCM82633A004352-001'', total_cost = 500\<rparr>,
         \<lparr>po_vehicle_identification_number = ''2T1BURHE5JC123456'', po_name = ''Acme'',
          order_number = ''2T1BURHE5JC123456-001'', total_cost = 100\<rparr>,
         \<lparr>po_vehicle_identification_number = ''3FAHP0HA7AR654321'', po_name = ''Acme'',
          order_number = ''3FAHP0HA7AR654321-001'', total_cost = 250.5\<rparr>],
      Part =
        [\<lparr>p_order_number = ''1HGCM82633A004352-001'', vendor_parts_number = ''A-1'',
          p_description = ''brake pads'', quantity = 2, status = ''Installed'', unit_price = 250\<rparr>,
         \<lparr>p_order_number = ''2T1BURHE5JC123456-001'', vendor_parts_number = ''B-7'',
          p_description = ''wiper'', quantity = 1, status = ''Ordered'', unit_price = 100\<rparr>,
         \<lparr>p_order_number = ''3FAHP0HA7AR654321-001'', vendor_parts_number = ''C-3'',
          p_description = ''alternator'', quantity = 1, status = ''Received'', unit_price = 250.5\<rparr>],
      VehicleType = [''SUV'', ''Sedan'', ''Truck''],
      Vendor = [''Acme'']\<rparr>"

text \<open>A call of \<^verbatim>\<open>search_vehicles\<close> with the role alone: every filter keeps its default.\<close>

definition no_args :: "string \<Rightarrow> search_args" where
  "no_args role =
     \<lparr>a_vehicle_type = None, a_manufacturer = None, a_year = None, a_fuel_type = None,
      a_color = None, a_keyword = None, a_vin = None, a_vehicle_status = None, a_role = role\<rparr>"

text \<open>The example database with no purchase recorded.\<close>

definition unpurchased_db :: database where
  "unpurchased_db = example_db\<lparr>PurchaseTransaction := []\<rparr>"

text \<open>
  The example database with two more sold sedans, kept 32 days each, so that the mean of
  the sedans is 95 / 3.
\<close>

definition report_db :: database where
  "report_db =
     example_db
       \<lparr>Vehicle := Vehicle example_db @
          [\<lparr>vehicle_identification_number = ''4S3BMHB68B3286050'', vehicle_type = ''Sedan'',
            manufacturer_name = ''Subaru'', model_name = ''Legacy'', year = 2011, fuel_type = ''Gas'',
            horsepower = 170, condition = ''Good'', description = ''awd''\<rparr>,
           \<lparr>vehicle_identification_number = ''5YJSA1DN5DFP14705'', vehicle_type = ''Sedan'',
            manufacturer_name = ''Tesla'', model_name = ''Model S'', year = 2013,
            fuel_type = ''Plugin Hybrid'', horsepower = 362, condition = ''Very Good'',
            description = ''electric''\<rparr>],
        PurchaseTransaction := PurchaseTransaction example_db @
          [\<lparr>pt_vehicle_identification_number = ''4S3BMHB68B3286050'', purchase_price = 6000,
            purchased_on = 100\<rparr>,
           \<lparr>pt_vehicle_identification_number = ''5YJSA1DN5DFP14705'', purchase_price = 30000,
            purchased_on = 100\<rparr>],
        SaleTransaction := SaleTransaction example_db @
          [\<lparr>st_vehicle_identification_number = ''4S3BMHB68B3286050'', sale_price = 9000,
            sold_on = 131\<rparr>,
           \<lparr>st_vehicle_identification_number = ''5YJSA1DN5DFP14705'', sale_price = 41000,
            sold_on = 131\<rparr>]\<rparr>"

text \<open>
  For the examples of \<^verbatim>\<open>add_parts_order\<close>: an instance of the float operations on the
  rationals. On floats that are sums of few powers of two, as the prices used here, the
  float operations are exact, and \<^verbatim>\<open>round(x, 2)\<close> takes a tie to the even neighbour.
\<close>

definition round_half_even2 :: "rat \<Rightarrow> rat" where
  "round_half_even2 x =
     (let k = \<lfloor>x * 100\<rfloor>; r = x * 100 - of_int k
      in if r < 1 / 2 then of_int k / 100
         else if 1 / 2 < r then of_int (k + 1) / 100
         else if even k then of_int k / 100 else of_int (k + 1) / 100)"

definition exact_float :: "rat py_float" where
  "exact_float =
     \<lparr>float_of_int = of_int, float_add = (+), float_mul = (*), float_round2 = round_half_even2,
      float_to_decimal = (\<lambda>x. x)\<rparr>"

text \<open>The example database before any parts order, and two parts to order.\<close>

definition no_orders_db :: database where
  "no_orders_db = example_db\<lparr>PartsOrder := [], Part := []\<rparr>"

definition example_parts :: "rat part_input list" where
  "example_parts =
     [\<lparr>vendor_part_number = ''K-1'', part_description = ''filter'', part_quantity = 2,
       part_status = ''Ordered'', part_unit_price = 10.25\<rparr>,
      \<lparr>vendor_part_number = ''K-2'', part_description = ''washer'', part_quantity = 1,
       part_status = ''Ordered'', part_unit_price = 0.125\<rparr>]"

section \<open>Properties of the part status updates\<close>

lemma transitions_legal:
  "new \<in> set (dict_get valid_status_transitions old []) \<longleftrightarrow> legal_transition old new"
  by (auto simp: dict_get_def valid_status_transitions_def legal_transition_def)

lemma find_unique_key:
  assumes "distinct (map part_key ps)" and "p \<in> set ps"
  shows "find (part_where (p_order_number p) (vendor_parts_number p)) ps = Some p"
  using assms
proof (induction ps)
  case Nil
  then show ?case by simp
next
  case (Cons q ps)
  show ?case
  proof (cases "q = p")
    case True
    then show ?thesis by (simp add: part_where_def)
  next
    case False
    with Cons.prems have in_tl: "p \<in> set ps" and fresh: "part_key q \<notin> part_key ` set ps"
      by auto
    from in_tl fresh have "part_key q \<noteq> part_key p" by force
    then have "\<not> part_where (p_order_number p) (vendor_parts_number p) q"
      by (auto simp: part_where_def part_key_def)
    moreover from Cons.prems have "distinct (map part_key ps)" by simp
    ultimately show ?thesis using Cons.IH in_tl by simp
  qed
qed

lemma find_absent:
  "(\<forall>p \<in> set ps. \<not> P p) \<Longrightarrow> find P ps = None"
  by (induction ps) auto

lemma update_unique_key:
  assumes "distinct (map part_key ps)" and "p \<in> set ps"
  shows "find (part_where (p_order_number p) (vendor_parts_number p))
           (map (\<lambda>q. if part_where (p_order_number p) (vendor_parts_number p) q
                      then q\<lparr>status := s\<rparr> else q) ps)
         = Some (p\<lparr>status := s\<rparr>)"
  using assms
proof (induction ps)
  case Nil
  then show ?case by simp
next
  case (Cons q ps)
  show ?case
  proof (cases "q = p")
    case True
    then show ?thesis by (simp add: part_where_def)
  next
    case False
    with Cons.prems have in_tl: "p \<in> set ps" and fresh: "part_key q \<notin> part_key ` set ps"
      by auto
    from in_tl fresh have "part_key q \<noteq> part_key p" by force
    then have "\<not> part_where (p_order_number p) (vendor_parts_number p) q"
      by (auto simp: part_where_def part_key_def)
    moreover from Cons.prems have "distinct (map part_key ps)" by simp
    ultimately show ?thesis using Cons.IH in_tl by simp
  qed
qed

text \<open>
  C2. For a part \<open>p\<close> of a \<^verbatim>\<open>Part\<close> table with unique keys, \<^verbatim>\<open>update_part_status\<close> on the
  key of \<open>p\<close> returns true exactly when the requested transition is one of
  Ordered\<rightarrow>Received, Ordered\<rightarrow>Installed, Received\<rightarrow>Installed, and then the stored
  status of the part is the new one; on every other request it returns false and the
  database is the one before the call; and for a key that no row of \<^verbatim>\<open>Part\<close> carries it
  returns false, again without a change.
\<close>

theorem update_part_status_transitions:
  "(distinct (map part_key (Part db)) \<and> p \<in> set (Part db) \<longrightarrow>
      (fst (update_part_status (p_order_number p) (vendor_parts_number p) new db)
         \<longleftrightarrow> legal_transition (status p) new) \<and>
      (legal_transition (status p) new \<longrightarrow>
         select_status
           (snd (update_part_status (p_order_number p) (vendor_parts_number p) new db))
           (p_order_number p) (vendor_parts_number p) = Some new) \<and>
      (\<not> legal_transition (status p) new \<longrightarrow>
         snd (update_part_status (p_order_number p) (vendor_parts_number p) new db) = db)) \<and>
   ((\<forall>q \<in> set (Part db). \<not> part_where order_no vendor_part_no q) \<longrightarrow>
      update_part_status order_no vendor_part_no new db = (False, db))"
proof (intro conjI impI)
  assume wf: "distinct (map part_key (Part db)) \<and> p \<in> set (Part db)"
  then have found: "find (part_where (p_order_number p) (vendor_parts_number p)) (Part db) = Some p"
    using find_unique_key by blast
  show "fst (update_part_status (p_order_number p) (vendor_parts_number p) new db)
          \<longleftrightarrow> legal_transition (status p) new"
    by (simp add: update_part_status_def select_status_def found transitions_legal)
  {
    assume "legal_transition (status p) new"
    then show "select_status
           (snd (update_part_status (p_order_number p) (vendor_parts_number p) new db))
           (p_order_number p) (vendor_parts_number p) = Some new"
      using wf update_unique_key [of "Part db" p new]
      by (simp add: update_part_status_def select_status_def found transitions_legal
          update_part_set_status_def)
  }
  {
    assume "\<not> legal_transition (status p) new"
    then show "snd (update_part_status (p_order_number p) (vendor_parts_number p) new db) = db"
      by (simp add: update_part_status_def select_status_def found transitions_legal)
  }
next
  assume "\<forall>q \<in> set (Part db). \<not> part_where order_no vendor_part_no q"
  then have "find (part_where order_no vendor_part_no) (Part db) = None"
    by (rule find_absent)
  then show "update_part_status order_no vendor_part_no new db = (False, db)"
    by (simp add: update_part_status_def select_status_def)
qed

theorem update_part_status_transitions_witness:
  "fst (update_part_status ''3FAHP0HA7AR654321-001'' ''C-3'' ''Installed'' example_db) \<and>
   select_status
     (snd (update_part_status ''3FAHP0HA7AR654321-001'' ''C-3'' ''Installed'' example_db))
     ''3FAHP0HA7AR654321-001'' ''C-3'' = Some ''Installed'' \<and>
   update_part_status ''1HGCM82633A004352-001'' ''A-1'' ''Ordered'' example_db
     = (False, example_db) \<and>
   update_part_status ''1HGCM82633A004352-001'' ''Z-9'' ''Installed'' example_db
     = (False, example_db)"
proof -
  define p where "p = \<lparr>p_order_number = ''3FAHP0HA7AR654321-001'', vendor_parts_number = ''C-3'',
          p_description = ''alternator'', quantity = 1, status = ''Received'', unit_price = 250.5\<rparr>"
  define q where "q = \<lparr>p_order_number = ''1HGCM82633A004352-001'', vendor_parts_number = ''A-1'',
          p_description = ''brake pads'', quantity = 2, status = ''Installed'', unit_price = 250\<rparr>"
  have wf: "distinct (map part_key (Part example_db))"
    by (simp add: example_db_def part_key_def)
  have mem: "p \<in> set (Part example_db)" "q \<in> set (Part example_db)"
    by (simp_all add: example_db_def p_def q_def)
  have legal: "legal_transition (status p) ''Installed''" "\<not> legal_transition (status q) ''Ordered''"
    by (simp_all add: legal_transition_def p_def q_def)
  have absent: "\<forall>r \<in> set (Part example_db). \<not> part_where ''1HGCM82633A004352-001'' ''Z-9'' r"
    by (simp add: example_db_def part_where_def)
  have keys: "p_order_number p = ''3FAHP0HA7AR654321-001''" "vendor_parts_number p = ''C-3''"
    "p_order_number q = ''1HGCM82633A004352-001''" "vendor_parts_number q = ''A-1''"
    by (simp_all add: p_def q_def)
  from update_part_status_transitions [of example_db p "''Installed''" "''1HGCM82633A004352-001''" "''Z-9''"]
    update_part_status_transitions [of example_db q "''Ordered''" "''1HGCM82633A004352-001''" "''Z-9''"]
    wf mem legal absent
  show ?thesis unfolding keys by (simp add: prod_eq_iff)
qed

text \<open>
  \<^verbatim>\<open>update_status\<close> succeeds whenever a row carries the key, whatever the stored and the
  requested status are.
\<close>

lemma update_status_any:
  "fst (update_status new vendor_part_no order_no db)
     \<longleftrightarrow> (\<exists>p \<in> set (Part db). part_where order_no vendor_part_no p)"
  by (auto simp: update_status_def update_part_set_status_def filter_empty_conv)

text \<open>
  C3. Both update operations are to refuse an illegal transition and leave the stored
  status alone. \<^verbatim>\<open>update_part_status\<close> does; \<^verbatim>\<open>update_status\<close> does not: on the
  installed part A-1 of the example database the request to go back to Ordered returns true
  and the stored status becomes Ordered, where \<^verbatim>\<open>update_part_status\<close> returns false and
  changes nothing.
\<close>

theorem update_status_skips_validation:
  "select_status example_db ''1HGCM82633A004352-001'' ''A-1'' = Some ''Installed'' \<and>
   \<not> legal_transition ''Installed'' ''Ordered'' \<and>
   fst (update_status ''Ordered'' ''A-1'' ''1HGCM82633A004352-001'' example_db) \<and>
   select_status (snd (update_status ''Ordered'' ''A-1'' ''1HGCM82633A004352-001'' example_db))
     ''1HGCM82633A004352-001'' ''A-1'' = Some ''Ordered'' \<and>
   update_part_status ''1HGCM82633A004352-001'' ''A-1'' ''Ordered'' example_db = (False, example_db)"
  by code_simp

section \<open>Properties of the vehicle search\<close>

lemma set_left_join:
  "(x, m) \<in> set (left_join xs ys on) \<longleftrightarrow>
     x \<in> set xs \<and> (case m of None \<Rightarrow> \<forall>y \<in> set ys. \<not> on x y | Some y \<Rightarrow> y \<in> set ys \<and> on x y)"
proof -
  have one: "\<And>x'. (x, m) \<in> set (case filter (on x') ys of [] \<Rightarrow> [(x', None)]
                        | m # ms \<Rightarrow> map (\<lambda>y. (x', Some y)) (m # ms)) \<longleftrightarrow>
      x = x' \<and> (case m of None \<Rightarrow> \<forall>y \<in> set ys. \<not> on x y | Some y \<Rightarrow> y \<in> set ys \<and> on x y)"
  proof -
    fix x'
    show "(x, m) \<in> set (case filter (on x') ys of [] \<Rightarrow> [(x', None)]
                        | m # ms \<Rightarrow> map (\<lambda>y. (x', Some y)) (m # ms)) \<longleftrightarrow>
      x = x' \<and> (case m of None \<Rightarrow> \<forall>y \<in> set ys. \<not> on x y | Some y \<Rightarrow> y \<in> set ys \<and> on x y)"
    proof (cases "filter (on x') ys")
      case Nil
      then have "\<forall>y \<in> set ys. \<not> on x' y" by (simp add: filter_empty_conv)
      with Nil show ?thesis by (cases m) auto
    next
      case (Cons b bs)
      have "set (filter (on x') ys) = {y \<in> set ys. on x' y}" by simp
      with Cons have eq: "{y \<in> set ys. on x' y} = insert b (set bs)" by simp
      then have "b \<in> set ys \<and> on x' b" by blast
      with Cons eq show ?thesis by (cases m) auto
    qed
  qed
  show ?thesis unfolding left_join_def set_concat using one by auto
qed

lemma set_inner_join:
  "(x, y) \<in> set (inner_join xs ys on) \<longleftrightarrow> x \<in> set xs \<and> y \<in> set ys \<and> on x y"
  by (auto simp: inner_join_def)

lemma group_by_complete:
  "(r, g) \<in> set (group_by key xs) \<Longrightarrow> r \<in> set xs \<and> g = filter (\<lambda>y. key y = key r) xs"
proof (induction key xs rule: group_by.induct)
  case (1 key)
  then show ?case by simp
next
  case (2 key x xs)
  from "2.prems" consider
    (hd) "r = x" "g = x # filter (\<lambda>y. key y = key x) xs"
    | (tl) "(r, g) \<in> set (group_by key (filter (\<lambda>y. key y \<noteq> key x) xs))"
    by auto
  then show ?case
  proof cases
    case hd
    then show ?thesis by simp
  next
    case tl
    with "2.IH" have r: "r \<in> set (filter (\<lambda>y. key y \<noteq> key x) xs)"
      and g: "g = filter (\<lambda>y. key y = key r) (filter (\<lambda>y. key y \<noteq> key x) xs)"
      by auto
    from r have ne: "key r \<noteq> key x" by simp
    have "filter (\<lambda>y. key y = key r) (filter (\<lambda>y. key y \<noteq> key x) xs)
          = filter (\<lambda>y. key y = key r) xs"
      using ne by (induction xs) auto
    with r g ne show ?thesis by auto
  qed
qed

lemma group_by_cover:
  "x \<in> set xs \<Longrightarrow> \<exists>r g. (r, g) \<in> set (group_by key xs) \<and> key r = key x"
proof (induction key xs rule: group_by.induct)
  case (1 key)
  then show ?case by simp
next
  case (2 key y ys)
  show ?case
  proof (cases "key x = key y")
    case True
    then show ?thesis by (intro exI [of _ y]) auto
  next
    case False
    with "2.prems" have "x \<in> set (filter (\<lambda>z. key z \<noteq> key y) ys)" by auto
    from "2.IH" [OF this] show ?thesis by auto
  qed
qed

lemma set_left_join':
  "(x, m) \<in> set (left_join xs ys on) \<longleftrightarrow> x \<in> set xs \<and> opt_match ys (on x) m"
  by (simp add: set_left_join opt_match_def)

lemma opt_match_ex: "\<exists>m. opt_match ys P m"
proof (cases "\<exists>y \<in> set ys. P y")
  case True
  then obtain y where "y \<in> set ys" "P y" by blast
  then have "opt_match ys P (Some y)" by (simp add: opt_match_def)
  then show ?thesis ..
next
  case False
  then have "opt_match ys P None" by (simp add: opt_match_def)
  then show ?thesis ..
qed

lemma in_from_clause:
  "j \<in> set (from_clause db on_conds) \<longleftrightarrow>
     j_v j \<in> set (Vehicle db) \<and>
     opt_match (VehicleColor db)
       (\<lambda>c. vehicle_identification_number (j_v j) = vc_vehicle_identification_number c) (j_vc j) \<and>
     opt_match (SaleTransaction db)
       (\<lambda>s. vehicle_identification_number (j_v j) = st_vehicle_identification_number s) (j_st j) \<and>
     opt_match (PurchaseTransaction db)
       (\<lambda>p. vehicle_identification_number (j_v j) = pt_vehicle_identification_number p) (j_pt j) \<and>
     opt_match (po_aggregated db)
       (\<lambda>a. vehicle_identification_number (j_v j) = fst a \<and>
            list_all (eval_cond db
              \<lparr>j_v = j_v j, j_vc = j_vc j, j_st = j_st j, j_pt = j_pt j,
               j_po_aggregated = Some a\<rparr>) on_conds)
       (j_po_aggregated j)"
  (is "?L \<longleftrightarrow> ?R")
proof
  assume ?L
  then obtain v c s p a where
    mem: "((((v, c), s), p), a) \<in> set (left_join
         (left_join
           (left_join
             (left_join (Vehicle db) (VehicleColor db)
               (\<lambda>v c. vehicle_identification_number v = vc_vehicle_identification_number c))
             (SaleTransaction db)
             (\<lambda>(v, c) s. vehicle_identification_number v = st_vehicle_identification_number s))
           (PurchaseTransaction db)
           (\<lambda>((v, c), s) p. vehicle_identification_number v = pt_vehicle_identification_number p))
         (po_aggregated db)
         (\<lambda>(((v, c), s), p) a.
             vehicle_identification_number v = fst a \<and>
             list_all (eval_cond db
               \<lparr>j_v = v, j_vc = c, j_st = s, j_pt = p, j_po_aggregated = Some a\<rparr>) on_conds))"
    and j: "j = \<lparr>j_v = v, j_vc = c, j_st = s, j_pt = p, j_po_aggregated = a\<rparr>"
    unfolding from_clause_def by auto
  from mem show ?R unfolding j by (simp add: set_left_join')
next
  assume r: ?R
  have "j = (\<lambda>((((v, c), s), p), a).
            \<lparr>j_v = v, j_vc = c, j_st = s, j_pt = p, j_po_aggregated = a\<rparr>)
          ((((j_v j, j_vc j), j_st j), j_pt j), j_po_aggregated j)"
    by simp
  moreover from r have "((((j_v j, j_vc j), j_st j), j_pt j), j_po_aggregated j) \<in> set (left_join
         (left_join
           (left_join
             (left_join (Vehicle db) (VehicleColor db)
               (\<lambda>v c. vehicle_identification_number v = vc_vehicle_identification_number c))
             (SaleTransaction db)
             (\<lambda>(v, c) s. vehicle_identification_number v = st_vehicle_identification_number s))
           (PurchaseTransaction db)
           (\<lambda>((v, c), s) p. vehicle_identification_number v = pt_vehicle_identification_number p))
         (po_aggregated db)
         (\<lambda>(((v, c), s), p) a.
             vehicle_identification_number v = fst a \<and>
             list_all (eval_cond db
               \<lparr>j_v = v, j_vc = c, j_st = s, j_pt = p, j_po_aggregated = Some a\<rparr>) on_conds))"
    by (simp add: set_left_join')
  ultimately show ?L unfolding from_clause_def set_map by (rule image_eqI)
qed

lemma in_from_clause_nil:
  "j \<in> set (from_clause db []) \<longleftrightarrow>
     j_v j \<in> set (Vehicle db) \<and>
     opt_match (VehicleColor db)
       (\<lambda>c. vehicle_identification_number (j_v j) = vc_vehicle_identification_number c) (j_vc j) \<and>
     opt_match (SaleTransaction db)
       (\<lambda>s. vehicle_identification_number (j_v j) = st_vehicle_identification_number s) (j_st j) \<and>
     opt_match (PurchaseTransaction db)
       (\<lambda>p. vehicle_identification_number (j_v j) = pt_vehicle_identification_number p) (j_pt j) \<and>
     opt_match (po_aggregated db)
       (\<lambda>a. vehicle_identification_number (j_v j) = fst a) (j_po_aggregated j)"
  by (simp add: in_from_clause)

lemma from_clause_vehicle:
  assumes "j \<in> set (from_clause db on_conds)"
  shows "j_v j \<in> set (Vehicle db) \<and>
     opt_match (SaleTransaction db)
       (\<lambda>s. vehicle_identification_number (j_v j) = st_vehicle_identification_number s) (j_st j)"
  using assms by (simp add: in_from_clause)


lemma po_aggregated_total:
  assumes "opt_match (po_aggregated db) (\<lambda>a. vin = fst a) m"
  shows "(case m of None \<Rightarrow> 0 | Some a \<Rightarrow> snd a) = total_parts_cost db vin"
proof (cases m)
  case None
  with assms have none: "\<forall>a \<in> set (po_aggregated db). vin \<noteq> fst a"
    by (simp add: opt_match_def)
  have "filter (\<lambda>po. po_vehicle_identification_number po = vin) (PartsOrder db) = []"
  proof (rule ccontr)
    assume "filter (\<lambda>po. po_vehicle_identification_number po = vin) (PartsOrder db) \<noteq> []"
    then obtain po where "po \<in> set (PartsOrder db)" "po_vehicle_identification_number po = vin"
      by (auto simp: filter_empty_conv)
    then obtain r g where "(r, g) \<in> set (group_by po_vehicle_identification_number (PartsOrder db))"
      "po_vehicle_identification_number r = vin"
      using group_by_cover [of po "PartsOrder db" po_vehicle_identification_number] by auto
    then have "(vin, sum_list (map total_cost g)) \<in> set (po_aggregated db)"
      unfolding po_aggregated_def by force
    with none show False by force
  qed
  with None show ?thesis by (simp add: total_parts_cost_def)
next
  case (Some a)
  with assms have "a \<in> set (po_aggregated db)" "fst a = vin" by (auto simp: opt_match_def)
  then obtain r g where rg: "(r, g) \<in> set (group_by po_vehicle_identification_number (PartsOrder db))"
    and a: "a = (po_vehicle_identification_number r, sum_list (map total_cost g))"
    unfolding po_aggregated_def by auto
  from group_by_complete [OF rg]
  have "g = filter (\<lambda>y. po_vehicle_identification_number y = po_vehicle_identification_number r) (PartsOrder db)"
    by simp
  with a \<open>fst a = vin\<close> Some show ?thesis by (simp add: total_parts_cost_def)
qed

lemma parse_ands_tokens: "parse_ands (and_tokens cs) = Inr cs"
  by (induction cs) (simp_all add: and_tokens_def)

lemma and_tokens_append: "and_tokens (xs @ ys) = and_tokens xs @ and_tokens ys"
  by (simp add: and_tokens_def)

lemma any_filter_tokens: "\<exists>cs. any_filter mk arg = and_tokens cs"
proof (cases "any_filter mk arg = []")
  case True
  then have "any_filter mk arg = and_tokens []" by (simp add: and_tokens_def)
  then show ?thesis ..
next
  case False
  then obtain x where "any_filter mk arg = and_tokens [mk x]"
    by (auto simp: any_filter_def and_tokens_def split: option.splits if_splits)
  then show ?thesis ..
qed

lemma plain_filter_tokens: "\<exists>cs. plain_filter mk arg = and_tokens cs"
proof (cases "plain_filter mk arg = []")
  case True
  then have "plain_filter mk arg = and_tokens []" by (simp add: and_tokens_def)
  then show ?thesis ..
next
  case False
  then obtain x where "plain_filter mk arg = and_tokens [mk x]"
    by (auto simp: plain_filter_def and_tokens_def split: option.splits if_splits)
  then show ?thesis ..
qed

lemma year_filter_tokens: "\<exists>cs. year_filter arg = and_tokens cs"
proof (cases "year_filter arg = []")
  case True
  then have "year_filter arg = and_tokens []" by (simp add: and_tokens_def)
  then show ?thesis ..
next
  case False
  then obtain n where "year_filter arg = and_tokens [YearEq n]"
    by (auto simp: year_filter_def and_tokens_def split: option.splits if_splits year_arg.splits)
  then show ?thesis ..
qed

lemma dynamic_filters_tokens: "\<exists>cs. dynamic_filters a = and_tokens cs"
proof -
  obtain c1 c2 c3 c4 c5 c6 c7 where
    "any_filter VehicleTypeEq (a_vehicle_type a) = and_tokens c1"
    "any_filter ManufacturerEq (a_manufacturer a) = and_tokens c2"
    "year_filter (a_year a) = and_tokens c3"
    "any_filter FuelTypeEq (a_fuel_type a) = and_tokens c4"
    "any_filter ColorEq (a_color a) = and_tokens c5"
    "plain_filter (\<lambda>k. KeywordLike (''%'' @ k @ ''%'')) (a_keyword a) = and_tokens c6"
    "plain_filter VinEq (a_vin a) = and_tokens c7"
    using any_filter_tokens plain_filter_tokens year_filter_tokens by metis
  then have "dynamic_filters a = and_tokens (c1 @ c2 @ c3 @ c4 @ c5 @ c6 @ c7)"
    by (simp only: dynamic_filters_def and_tokens_append)
  then show ?thesis ..
qed



lemma parse_where_one:
  "parse_after_joins ([TokWhere, TokCond c] @ and_tokens cs) = Inr ([], c # cs)"
  by (simp add: parse_ands_tokens)

lemma parse_where_two:
  "parse_after_joins ([TokWhere, TokCond c, TokAnd, TokCond d] @ and_tokens cs)
     = Inr ([], c # d # cs)"
  by (simp add: parse_ands_tokens)

lemma pending_parts_empty: "pending_parts db vin = [] \<longleftrightarrow> \<not> has_pending_part db vin"
  unfolding pending_parts_def has_pending_part_def filter_empty_conv
  by (auto simp: set_inner_join)

lemma select_public:
  "select_columns \<lparr>columns = all_columns, data = rs\<rparr> public_columns =
     Inr \<lparr>columns = public_columns,
           data = map (\<lambda>row. List.map_filter (cell_of all_columns row) public_columns) rs\<rparr>"
  by (simp add: select_columns_def all_columns_def public_columns_def)

lemma select_clerk:
  "select_columns \<lparr>columns = all_columns, data = rs\<rparr> clerk_columns =
     Inr \<lparr>columns = clerk_columns,
           data = map (\<lambda>row. List.map_filter (cell_of all_columns row) clerk_columns) rs\<rparr>"
  by (simp add: select_columns_def all_columns_def clerk_columns_def)

lemma search_vehicles_frame:
  "search_vehicles db a =
     (case parse_after_joins (role_filter (a_role a) (a_vehicle_status a) @ dynamic_filters a) of
        Inl e \<Rightarrow> Inl e
      | Inr (on_conds, where_conds) \<Rightarrow>
          Inr (frame (a_role a) (map select_list (grouped db on_conds where_conds))))"
  by (simp add: search_vehicles_def execute_search_def frame_def select_public select_clerk
      split: sum.splits)

lemma vin_cell_public:
  "cell_of public_columns (List.map_filter (cell_of all_columns (select_list jg)) public_columns) ''VIN''
     = Some (CStr (vehicle_identification_number (j_v (fst jg))))"
  by (simp add: cell_of_def public_columns_def all_columns_def select_list_def Let_def
      List.map_filter_simps)

lemma vin_cell_clerk:
  "cell_of clerk_columns (List.map_filter (cell_of all_columns (select_list jg)) clerk_columns) ''VIN''
     = Some (CStr (vehicle_identification_number (j_v (fst jg))))"
  by (simp add: cell_of_def clerk_columns_def all_columns_def select_list_def Let_def
      List.map_filter_simps)

lemma vin_cell_all:
  "cell_of all_columns (select_list jg) ''VIN''
     = Some (CStr (vehicle_identification_number (j_v (fst jg))))"
  by (simp add: cell_of_def all_columns_def select_list_def Let_def)

lemma sale_price_cell_public:
  "cell_of public_columns (List.map_filter (cell_of all_columns (select_list jg)) public_columns) ''SalePrice''
     = Some (sale_price_expr (fst jg))"
  by (simp add: cell_of_def public_columns_def all_columns_def select_list_def Let_def
      List.map_filter_simps)

lemma sale_price_cell_all:
  "cell_of all_columns (select_list jg) ''SalePrice'' = Some (sale_price_expr (fst jg))"
  by (simp add: cell_of_def all_columns_def select_list_def Let_def)

lemma frame_vin:
  assumes "row \<in> set (data (frame role (map select_list gs)))"
  shows "\<exists>jg \<in> set gs.
     row = (if role = ''Public'' \<or> role = ''Salesperson''
            then List.map_filter (cell_of all_columns (select_list jg)) public_columns
            else if role = ''Inventory clerk''
            then List.map_filter (cell_of all_columns (select_list jg)) clerk_columns
            else select_list jg) \<and>
     cell_of (columns (frame role (map select_list gs))) row ''VIN''
        = Some (CStr (vehicle_identification_number (j_v (fst jg))))"
proof -
  consider (pub) "role = ''Public'' \<or> role = ''Salesperson''"
    | (clerk) "\<not> (role = ''Public'' \<or> role = ''Salesperson'')" "role = ''Inventory clerk''"
    | (full) "\<not> (role = ''Public'' \<or> role = ''Salesperson'')" "role \<noteq> ''Inventory clerk''"
    by blast
  then show ?thesis
  proof cases
    case pub
    with assms obtain jg where "jg \<in> set gs"
      "row = List.map_filter (cell_of all_columns (select_list jg)) public_columns"
      by (auto simp: frame_def)
    with pub show ?thesis by (auto simp: frame_def vin_cell_public)
  next
    case clerk
    with assms obtain jg where "jg \<in> set gs"
      "row = List.map_filter (cell_of all_columns (select_list jg)) clerk_columns"
      by (auto simp: frame_def)
    with clerk show ?thesis by (auto simp: frame_def vin_cell_clerk)
  next
    case full
    with assms obtain jg where "jg \<in> set gs" "row = select_list jg"
      by (auto simp: frame_def)
    with full show ?thesis by (auto simp: frame_def vin_cell_all)
  qed
qed

lemma grouped_member:
  assumes "(j, g) \<in> set (grouped db on_conds conds)"
  shows "j \<in> set (from_clause db on_conds) \<and> list_all (eval_cond db j) conds"
proof -
  from assms have "(j, g) \<in> set (group_by group_key (selected db on_conds conds))"
    by (simp add: grouped_def)
  from group_by_complete [OF this] have "j \<in> set (selected db on_conds conds)" by simp
  then show ?thesis by (simp add: selected_def)
qed

lemma grouped_cover:
  assumes "j \<in> set (from_clause db on_conds)" and "list_all (eval_cond db j) conds"
  shows "\<exists>r g. (r, g) \<in> set (grouped db on_conds conds) \<and> group_key r = group_key j"
proof -
  from assms have "j \<in> set (selected db on_conds conds)" by (simp add: selected_def)
  from group_by_cover [OF this, of group_key] show ?thesis by (simp add: grouped_def)
qed

lemma frame_vins:
  "vins_of (frame role (map select_list gs)) = (\<lambda>jg. vehicle_identification_number (j_v (fst jg))) ` set gs"
proof (intro set_eqI iffI)
  fix vin
  assume "vin \<in> vins_of (frame role (map select_list gs))"
  then obtain row where "row \<in> set (data (frame role (map select_list gs)))"
    and "cell_of (columns (frame role (map select_list gs))) row ''VIN'' = Some (CStr vin)"
    by (auto simp: vins_of_def)
  with frame_vin [of row role gs]
  show "vin \<in> (\<lambda>jg. vehicle_identification_number (j_v (fst jg))) ` set gs" by force
next
  fix vin
  assume "vin \<in> (\<lambda>jg. vehicle_identification_number (j_v (fst jg))) ` set gs"
  then obtain jg where jg: "jg \<in> set gs" and vin: "vin = vehicle_identification_number (j_v (fst jg))"
    by auto
  consider (pub) "role = ''Public'' \<or> role = ''Salesperson''"
    | (clerk) "\<not> (role = ''Public'' \<or> role = ''Salesperson'')" "role = ''Inventory clerk''"
    | (full) "\<not> (role = ''Public'' \<or> role = ''Salesperson'')" "role \<noteq> ''Inventory clerk''"
    by blast
  then show "vin \<in> vins_of (frame role (map select_list gs))"
  proof cases
    case pub
    with jg have "List.map_filter (cell_of all_columns (select_list jg)) public_columns
        \<in> set (data (frame role (map select_list gs)))"
      by (auto simp: frame_def)
    moreover from pub have "columns (frame role (map select_list gs)) = public_columns"
      by (auto simp: frame_def)
    ultimately show ?thesis unfolding vins_of_def vin using vin_cell_public [of jg] by auto
  next
    case clerk
    with jg have "List.map_filter (cell_of all_columns (select_list jg)) clerk_columns
        \<in> set (data (frame role (map select_list gs)))"
      by (auto simp: frame_def)
    moreover from clerk have "columns (frame role (map select_list gs)) = clerk_columns"
      by (auto simp: frame_def)
    ultimately show ?thesis unfolding vins_of_def vin using vin_cell_clerk [of jg] by auto
  next
    case full
    with jg have "select_list jg \<in> set (data (frame role (map select_list gs)))"
      by (auto simp: frame_def)
    moreover from full have "columns (frame role (map select_list gs)) = all_columns"
      by (auto simp: frame_def)
    ultimately show ?thesis unfolding vins_of_def vin using vin_cell_all [of jg] by auto
  qed
qed

lemma no_sale_row:
  assumes "j \<in> set (from_clause db on_conds)"
  shows "j_st j = None \<longleftrightarrow> \<not> has_sale db (vehicle_identification_number (j_v j))"
  using from_clause_vehicle [OF assms] unfolding has_sale_def opt_match_def
  by (cases "j_st j") auto

text \<open>
  C4. For the roles Public and Salesperson, whatever the database and the filters,
  \<^verbatim>\<open>search_vehicles\<close> returns a frame, and no vehicle of that frame has a sale
  transaction or a part of one of its parts orders whose status is not Installed.
\<close>

theorem search_public_excludes_sold_and_pending:
  assumes "a_role a = ''Public'' \<or> a_role a = ''Salesperson''"
  shows "\<exists>df. search_vehicles db a = Inr df \<and>
           (\<forall>row \<in> set (data df). \<exists>vin.
              cell_of (columns df) row ''VIN'' = Some (CStr vin) \<and>
              \<not> has_sale db vin \<and> \<not> has_pending_part db vin)"
proof -
  obtain cs where cs: "dynamic_filters a = and_tokens cs"
    using dynamic_filters_tokens by blast
  from assms have "role_filter (a_role a) (a_vehicle_status a)
      = [TokWhere, TokCond SalePriceIsNull, TokAnd, TokCond NoPendingParts]"
    by (auto simp: role_filter_def)
  then have res: "search_vehicles db a =
      Inr (frame (a_role a) (map select_list (grouped db [] (SalePriceIsNull # NoPendingParts # cs))))"
    unfolding search_vehicles_frame cs using parse_where_two [of SalePriceIsNull NoPendingParts cs]
    by simp
  have "\<exists>vin. cell_of (columns (frame (a_role a)
              (map select_list (grouped db [] (SalePriceIsNull # NoPendingParts # cs))))) row ''VIN''
            = Some (CStr vin) \<and>
          \<not> has_sale db vin \<and> \<not> has_pending_part db vin"
    if "row \<in> set (data (frame (a_role a)
          (map select_list (grouped db [] (SalePriceIsNull # NoPendingParts # cs)))))"
    for row
  proof -
    from frame_vin [OF that] obtain j g
      where jg: "(j, g) \<in> set (grouped db [] (SalePriceIsNull # NoPendingParts # cs))"
        and vin: "cell_of (columns (frame (a_role a)
              (map select_list (grouped db [] (SalePriceIsNull # NoPendingParts # cs))))) row ''VIN''
            = Some (CStr (vehicle_identification_number (j_v j)))"
      by auto
    from grouped_member [OF jg] have mem: "j \<in> set (from_clause db [])"
      and "j_st j = None" and "pending_parts db (vehicle_identification_number (j_v j)) = []"
      by simp_all
    then have "\<not> has_sale db (vehicle_identification_number (j_v j)) \<and>
        \<not> has_pending_part db (vehicle_identification_number (j_v j))"
      using no_sale_row [OF mem] pending_parts_empty by simp
    with vin show ?thesis by blast
  qed
  with res show ?thesis by blast
qed

theorem search_public_excludes_sold_and_pending_witness:
  "a_role (no_args ''Public'') = ''Public'' \<and>
   search_vehicles example_db (no_args ''Public'') =
     Inr \<lparr>columns = public_columns,
          data = [[CStr ''1HGCM82633A004352'', CStr ''Sedan'', CStr ''Honda'', CStr ''Accord'',
                   CInt 2003, CStr ''Gas'', CStr ''Black, Red'', CInt 160, CDec 13050]]\<rparr> \<and>
   \<not> has_sale example_db ''1HGCM82633A004352'' \<and>
   \<not> has_pending_part example_db ''1HGCM82633A004352'' \<and>
   has_sale example_db ''2T1BURHE5JC123456'' \<and>
   has_pending_part example_db ''3FAHP0HA7AR654321''"
proof -
  let ?row = "[CStr ''1HGCM82633A004352'', CStr ''Sedan'', CStr ''Honda'', CStr ''Accord'',
                   CInt 2003, CStr ''Gas'', CStr ''Black, Red'', CInt 160, CDec 13050]"
  have role: "a_role (no_args ''Public'') = ''Public'' \<or> a_role (no_args ''Public'') = ''Salesperson''"
    by (simp add: no_args_def)
  have run: "search_vehicles example_db (no_args ''Public'') =
     Inr \<lparr>columns = public_columns, data = [?row]\<rparr>"
    by code_simp
  have vin: "cell_of public_columns ?row ''VIN'' = Some (CStr ''1HGCM82633A004352'')"
    by (simp add: cell_of_def public_columns_def)
  have others: "has_sale example_db ''2T1BURHE5JC123456''"
    "has_pending_part example_db ''3FAHP0HA7AR654321''"
    by code_simp+
  from search_public_excludes_sold_and_pending [OF role, of example_db] run
  have "\<exists>vin. cell_of public_columns ?row ''VIN'' = Some (CStr vin) \<and>
          \<not> has_sale example_db vin \<and> \<not> has_pending_part example_db vin"
    by simp
  with vin have "\<not> has_sale example_db ''1HGCM82633A004352'' \<and>
      \<not> has_pending_part example_db ''1HGCM82633A004352''"
    by simp
  with run others show ?thesis by (simp add: no_args_def)
qed

lemma any_filter_empty: "any_filter mk arg = [] \<longleftrightarrow> arg \<in> {None, Some [], Some ''Any''}"
  by (auto simp: any_filter_def split: option.splits)

lemma plain_filter_empty: "plain_filter mk arg = [] \<longleftrightarrow> arg \<in> {None, Some []}"
  by (auto simp: plain_filter_def split: option.splits)

lemma year_filter_empty: "year_filter arg = [] \<longleftrightarrow> arg \<in> {None, Some YearAny, Some (YearInt 0)}"
  by (auto simp: year_filter_def split: option.splits year_arg.splits)

lemma dynamic_filters_empty: "dynamic_filters a = [] \<longleftrightarrow> no_filters a"
  unfolding dynamic_filters_def no_filters_def append_is_Nil_conv
    any_filter_empty plain_filter_empty year_filter_empty ..

text \<open>
  C5. For the roles Owner and Manager with \<^verbatim>\<open>vehicle_status="Sold"\<close> and no filter in
  effect, the identification numbers of the returned frame are exactly those of the
  vehicles that have a sale transaction, whatever the status of their parts; when every
  sale refers to a vehicle, they are exactly the identification numbers of the
  \<^verbatim>\<open>SaleTransaction\<close> table.
\<close>

theorem search_owner_sold:
  assumes role: "a_role a = ''Owner'' \<or> a_role a = ''Manager''"
    and sold: "a_vehicle_status a = Some ''Sold''"
    and nof: "no_filters a"
  shows "\<exists>df. search_vehicles db a = Inr df \<and>
           (\<forall>row \<in> set (data df). \<exists>vin. cell_of (columns df) row ''VIN'' = Some (CStr vin)) \<and>
           vins_of df = {vin \<in> vehicle_identification_number ` set (Vehicle db). has_sale db vin} \<and>
           (st_vehicle_identification_number ` set (SaleTransaction db)
              \<subseteq> vehicle_identification_number ` set (Vehicle db) \<longrightarrow>
            vins_of df = st_vehicle_identification_number ` set (SaleTransaction db))"
proof -
  from nof have dyn: "dynamic_filters a = and_tokens []"
    by (simp add: dynamic_filters_empty and_tokens_def)
  from role sold have "role_filter (a_role a) (a_vehicle_status a)
      = [TokWhere, TokCond SalePriceIsNotNull]"
    by (auto simp: role_filter_def)
  then have res: "search_vehicles db a =
      Inr (frame (a_role a) (map select_list (grouped db [] [SalePriceIsNotNull])))"
    unfolding search_vehicles_frame dyn using parse_where_one [of SalePriceIsNotNull "[]"]
    by simp
  have vins: "vins_of (frame (a_role a) (map select_list (grouped db [] [SalePriceIsNotNull])))
      = {vin \<in> vehicle_identification_number ` set (Vehicle db). has_sale db vin}"
    (is "?L = ?R")
  proof (intro set_eqI iffI)
    fix vin
    assume "vin \<in> ?L"
    then obtain j g where jg: "(j, g) \<in> set (grouped db [] [SalePriceIsNotNull])"
      and vin: "vin = vehicle_identification_number (j_v j)"
      unfolding frame_vins by auto
    from grouped_member [OF jg] have mem: "j \<in> set (from_clause db [])" and "j_st j \<noteq> None"
      by simp_all
    then have "has_sale db vin" unfolding vin using no_sale_row [OF mem] by simp
    moreover from mem have "j_v j \<in> set (Vehicle db)" by (simp add: in_from_clause)
    ultimately show "vin \<in> ?R" unfolding vin by simp
  next
    fix vin
    assume "vin \<in> ?R"
    then obtain v s where v: "v \<in> set (Vehicle db)" "vehicle_identification_number v = vin"
      and s: "s \<in> set (SaleTransaction db)" "st_vehicle_identification_number s = vin"
      by (auto simp: has_sale_def)
    obtain c where c: "opt_match (VehicleColor db)
       (\<lambda>c. vehicle_identification_number v = vc_vehicle_identification_number c) c"
      using opt_match_ex by blast
    obtain p where p: "opt_match (PurchaseTransaction db)
       (\<lambda>p. vehicle_identification_number v = pt_vehicle_identification_number p) p"
      using opt_match_ex by blast
    obtain t where t: "opt_match (po_aggregated db)
       (\<lambda>a. vehicle_identification_number v = fst a) t"
      using opt_match_ex by blast
    define j where "j = \<lparr>j_v = v, j_vc = c, j_st = Some s, j_pt = p, j_po_aggregated = t\<rparr>"
    have "j \<in> set (from_clause db [])"
      unfolding in_from_clause_nil using v s c p t by (simp add: j_def opt_match_def)
    moreover have "list_all (eval_cond db j) [SalePriceIsNotNull]" by (simp add: j_def)
    ultimately obtain r g where rg: "(r, g) \<in> set (grouped db [] [SalePriceIsNotNull])"
      and "group_key r = group_key j"
      using grouped_cover by blast
    then have "vehicle_identification_number (j_v r) = vin"
      using v by (simp add: group_key_def j_def)
    with rg show "vin \<in> ?L" unfolding frame_vins by force
  qed
  have "{vin \<in> vehicle_identification_number ` set (Vehicle db). has_sale db vin}
      = st_vehicle_identification_number ` set (SaleTransaction db)"
    if "st_vehicle_identification_number ` set (SaleTransaction db)
              \<subseteq> vehicle_identification_number ` set (Vehicle db)"
    using that by (auto simp: has_sale_def)
  moreover have "\<forall>row \<in> set (data (frame (a_role a)
        (map select_list (grouped db [] [SalePriceIsNotNull])))).
      \<exists>vin. cell_of (columns (frame (a_role a)
        (map select_list (grouped db [] [SalePriceIsNotNull])))) row ''VIN'' = Some (CStr vin)"
    using frame_vin by blast
  ultimately show ?thesis using res vins by simp
qed

theorem search_owner_sold_witness:
  "a_role ((no_args ''Owner'')\<lparr>a_vehicle_status := Some ''Sold''\<rparr>) = ''Owner'' \<and>
   a_vehicle_status ((no_args ''Owner'')\<lparr>a_vehicle_status := Some ''Sold''\<rparr>) = Some ''Sold'' \<and>
   no_filters ((no_args ''Owner'')\<lparr>a_vehicle_status := Some ''Sold''\<rparr>) \<and>
   st_vehicle_identification_number ` set (SaleTransaction example_db)
     \<subseteq> vehicle_identification_number ` set (Vehicle example_db) \<and>
   (\<exists>df. search_vehicles example_db ((no_args ''Owner'')\<lparr>a_vehicle_status := Some ''Sold''\<rparr>) = Inr df \<and>
         vins_of df = {''2T1BURHE5JC123456''}) \<and>
   has_pending_part example_db ''2T1BURHE5JC123456''"
proof -
  let ?a = "(no_args ''Owner'')\<lparr>a_vehicle_status := Some ''Sold''\<rparr>"
  have r: "a_role ?a = ''Owner''" by (simp add: no_args_def)
  then have role: "a_role ?a = ''Owner'' \<or> a_role ?a = ''Manager''" ..
  have sold: "a_vehicle_status ?a = Some ''Sold''" by simp
  have nof: "no_filters ?a" by (simp add: no_filters_def no_args_def)
  have fk: "st_vehicle_identification_number ` set (SaleTransaction example_db)
     \<subseteq> vehicle_identification_number ` set (Vehicle example_db)"
    by code_simp
  have sales: "st_vehicle_identification_number ` set (SaleTransaction example_db)
     = {''2T1BURHE5JC123456''}"
    by (simp add: example_db_def)
  have pend: "has_pending_part example_db ''2T1BURHE5JC123456''"
    by code_simp
  from search_owner_sold [OF role sold nof, of example_db] obtain df
    where df: "search_vehicles example_db ?a = Inr df"
      and "st_vehicle_identification_number ` set (SaleTransaction example_db)
              \<subseteq> vehicle_identification_number ` set (Vehicle example_db) \<longrightarrow>
            vins_of df = st_vehicle_identification_number ` set (SaleTransaction example_db)"
    by blast
  with fk have "vins_of df = st_vehicle_identification_number ` set (SaleTransaction example_db)"
    by blast
  then have "vins_of df = {''2T1BURHE5JC123456''}" by (simp only: sales)
  with df have "\<exists>df. search_vehicles example_db ?a = Inr df \<and> vins_of df = {''2T1BURHE5JC123456''}"
    by blast
  with r sold nof fk pend show ?thesis by blast
qed

lemma frame_sale_price:
  assumes "row \<in> set (data (frame role (map select_list gs)))" and "role \<noteq> ''Inventory clerk''"
  shows "\<exists>jg \<in> set gs.
     cell_of (columns (frame role (map select_list gs))) row ''VIN''
        = Some (CStr (vehicle_identification_number (j_v (fst jg)))) \<and>
     cell_of (columns (frame role (map select_list gs))) row ''SalePrice''
        = Some (sale_price_expr (fst jg))"
proof -
  from frame_vin [OF assms(1)] obtain jg where jg: "jg \<in> set gs"
    and row: "row = (if role = ''Public'' \<or> role = ''Salesperson''
            then List.map_filter (cell_of all_columns (select_list jg)) public_columns
            else if role = ''Inventory clerk''
            then List.map_filter (cell_of all_columns (select_list jg)) clerk_columns
            else select_list jg)"
    and vin: "cell_of (columns (frame role (map select_list gs))) row ''VIN''
        = Some (CStr (vehicle_identification_number (j_v (fst jg))))"
    by blast
  have "cell_of (columns (frame role (map select_list gs))) row ''SalePrice''
        = Some (sale_price_expr (fst jg))"
  proof (cases "role = ''Public'' \<or> role = ''Salesperson''")
    case True
    then show ?thesis unfolding row using sale_price_cell_public [of jg] by (simp add: frame_def)
  next
    case False
    with assms(2) show ?thesis unfolding row using sale_price_cell_all [of jg]
      by (simp add: frame_def)
  qed
  with jg vin show ?thesis by blast
qed

lemma sale_price_expr_value:
  assumes mem: "j \<in> set (from_clause db [])"
  shows "if has_sale db (vehicle_identification_number (j_v j))
     then \<exists>s \<in> set (SaleTransaction db).
            st_vehicle_identification_number s = vehicle_identification_number (j_v j) \<and>
            sale_price_expr j = CDec (sale_price s)
     else if has_purchase db (vehicle_identification_number (j_v j))
     then \<exists>p \<in> set (PurchaseTransaction db).
            pt_vehicle_identification_number p = vehicle_identification_number (j_v j) \<and>
            sale_price_expr j =
              CDec (sql_round2 (1.25 * purchase_price p +
                1.1 * total_parts_cost db (vehicle_identification_number (j_v j))))
     else sale_price_expr j = CNull"
proof (cases "j_st j")
  case (Some s)
  with mem have "s \<in> set (SaleTransaction db)"
    "st_vehicle_identification_number s = vehicle_identification_number (j_v j)"
    by (simp_all add: in_from_clause_nil opt_match_def)
  moreover from Some have "sale_price_expr j = CDec (sale_price s)"
    by (simp add: sale_price_expr_def)
  ultimately show ?thesis unfolding has_sale_def by force
next
  case None
  then have unsold: "\<not> has_sale db (vehicle_identification_number (j_v j))"
    using no_sale_row [OF mem] by simp
  show ?thesis
  proof (cases "j_pt j")
    case pnone: None
    with mem have "\<not> has_purchase db (vehicle_identification_number (j_v j))"
      by (auto simp: in_from_clause_nil opt_match_def has_purchase_def)
    with unsold None pnone show ?thesis by (simp add: sale_price_expr_def)
  next
    case (Some p)
    with mem have p: "p \<in> set (PurchaseTransaction db)"
      "pt_vehicle_identification_number p = vehicle_identification_number (j_v j)"
      by (simp_all add: in_from_clause_nil opt_match_def)
    then have hp: "has_purchase db (vehicle_identification_number (j_v j))"
      unfolding has_purchase_def by force
    from mem have "(case j_po_aggregated j of None \<Rightarrow> 0 | Some a \<Rightarrow> snd a)
        = total_parts_cost db (vehicle_identification_number (j_v j))"
      using po_aggregated_total by (simp add: in_from_clause_nil)
    with None Some have "sale_price_expr j =
        CDec (sql_round2 (1.25 * purchase_price p +
                1.1 * total_parts_cost db (vehicle_identification_number (j_v j))))"
      by (simp add: sale_price_expr_def)
    with unsold hp p show ?thesis by auto
  qed
qed

lemma known_role_filter:
  assumes "role \<in> set [''Public'', ''Salesperson'', ''Inventory clerk'', ''Manager'', ''Owner'']"
  shows "\<exists>c cs. role_filter role vehicle_status = [TokWhere, TokCond c] @ and_tokens cs"
proof -
  have two: "[TokWhere, TokCond SalePriceIsNull, TokAnd, TokCond NoPendingParts]
      = [TokWhere, TokCond SalePriceIsNull] @ and_tokens [NoPendingParts]"
    by (simp add: and_tokens_def)
  have one: "[TokWhere, TokCond c] = [TokWhere, TokCond c] @ and_tokens []" for c
    by (simp add: and_tokens_def)
  consider (pub) "role \<in> set [''Public'', ''Salesperson'']"
    | (clerk) "role = ''Inventory clerk''"
    | (mgr) "role \<in> set [''Manager'', ''Owner'']"
    using assms by auto
  then show ?thesis
  proof cases
    case pub
    then have "role_filter role vehicle_status
        = [TokWhere, TokCond SalePriceIsNull] @ and_tokens [NoPendingParts]"
      unfolding two [symmetric] by (simp add: role_filter_def)
    then show ?thesis by blast
  next
    case clerk
    then have "role_filter role vehicle_status
        = [TokWhere, TokCond SalePriceIsNull] @ and_tokens []"
      unfolding one [symmetric] by (simp add: role_filter_def)
    then show ?thesis by blast
  next
    case mgr
    then have "\<exists>c. role_filter role vehicle_status = [TokWhere, TokCond c]"
      by (auto simp: role_filter_def)
    then obtain c where "role_filter role vehicle_status = [TokWhere, TokCond c] @ and_tokens []"
      unfolding one [symmetric] by blast
    then show ?thesis by blast
  qed
qed

lemma on_conds_empty:
  assumes scope: "a_role a \<in> set [''Public'', ''Salesperson'', ''Inventory clerk'', ''Manager'', ''Owner''] \<or> no_filters a"
    and parse: "parse_after_joins (role_filter (a_role a) (a_vehicle_status a) @ dynamic_filters a)
        = Inr (on_conds, where_conds)"
  shows "on_conds = []"
proof (cases "a_role a \<in> set [''Public'', ''Salesperson'', ''Inventory clerk'', ''Manager'', ''Owner'']")
  case True
  obtain cs where cs: "dynamic_filters a = and_tokens cs"
    using dynamic_filters_tokens by blast
  from known_role_filter [OF True] obtain c cs'
    where "role_filter (a_role a) (a_vehicle_status a) = [TokWhere, TokCond c] @ and_tokens cs'"
    by blast
  then have "role_filter (a_role a) (a_vehicle_status a) @ dynamic_filters a
      = [TokWhere, TokCond c] @ and_tokens (cs' @ cs)"
    by (simp add: cs and_tokens_append)
  with parse parse_where_one [of c "cs' @ cs"] show ?thesis by simp
next
  case False
  then have "role_filter (a_role a) (a_vehicle_status a) = []" by (simp add: role_filter_def)
  moreover from False scope have "dynamic_filters a = []" by (simp add: dynamic_filters_empty)
  ultimately show ?thesis using parse by simp
qed

text \<open>
  C1, as amended. For the five roles of the specification (and for any role when no filter
  is in effect), in every row that \<^verbatim>\<open>search_vehicles\<close> returns with a \<^verbatim>\<open>SalePrice\<close>
  column (every role but the inventory clerk, whose frame has none): when the vehicle has a
  sale transaction the column is the recorded sale price; when it has none but has a
  purchase transaction, the column is
  \<^verbatim>\<open>ROUND(1.25 * purchase_price + 1.1 * total_parts_cost, 2)\<close>, where the total parts cost is
  the sum of the total costs of its parts orders, 0 without any; and when it has neither a
  sale nor a purchase the column is \<^verbatim>\<open>NULL\<close>.
\<close>

theorem sale_price_column:
  assumes res: "search_vehicles db a = Inr df"
    and row: "row \<in> set (data df)"
    and role: "a_role a \<noteq> ''Inventory clerk''"
    and scope: "a_role a \<in> set [''Public'', ''Salesperson'', ''Inventory clerk'', ''Manager'', ''Owner''] \<or> no_filters a"
  shows "\<exists>vin. cell_of (columns df) row ''VIN'' = Some (CStr vin) \<and>
     (if has_sale db vin
      then \<exists>s \<in> set (SaleTransaction db). st_vehicle_identification_number s = vin \<and>
             cell_of (columns df) row ''SalePrice'' = Some (CDec (sale_price s))
      else if has_purchase db vin
      then \<exists>p \<in> set (PurchaseTransaction db). pt_vehicle_identification_number p = vin \<and>
             cell_of (columns df) row ''SalePrice'' =
               Some (CDec (sql_round2 (1.25 * purchase_price p + 1.1 * total_parts_cost db vin)))
      else cell_of (columns df) row ''SalePrice'' = Some CNull)"
proof -
  from res obtain on_conds conds
    where parse: "parse_after_joins (role_filter (a_role a) (a_vehicle_status a) @ dynamic_filters a)
        = Inr (on_conds, conds)"
      and df: "df = frame (a_role a) (map select_list (grouped db on_conds conds))"
    unfolding search_vehicles_frame by (auto split: sum.splits)
  from on_conds_empty [OF scope parse] have on: "on_conds = []" .
  from frame_sale_price [OF row [unfolded df] role] obtain j g
    where jg: "(j, g) \<in> set (grouped db [] conds)"
      and vin: "cell_of (columns df) row ''VIN'' = Some (CStr (vehicle_identification_number (j_v j)))"
      and sp: "cell_of (columns df) row ''SalePrice'' = Some (sale_price_expr j)"
    unfolding df on by auto
  from grouped_member [OF jg] have mem: "j \<in> set (from_clause db [])" by simp
  from sale_price_expr_value [OF mem] vin sp show ?thesis
    by (intro exI [of _ "vehicle_identification_number (j_v j)"]) (simp split: if_splits)
qed

text \<open>
  C1 as stated fails on two inputs. In the example database without purchases the unsold
  sedan 1HGCM82633A004352 is listed with a \<^verbatim>\<open>NULL\<close> sale price, as there is no purchase
  price to compute with. And for the role Guest, which is none of the five, the keyword
  filter continues the \<^verbatim>\<open>ON\<close> condition of the parts cost join: the unsold truck, which
  does not match the keyword, is listed at 10000.04, the rounded 1.25 * 8000.03, and not at
  10275.59, which includes 1.1 times its parts cost of 250.5.
\<close>

theorem sale_price_column_counterexample:
  "\<not> has_sale unpurchased_db ''1HGCM82633A004352'' \<and>
   search_vehicles unpurchased_db (no_args ''Public'') =
     Inr \<lparr>columns = public_columns,
          data = [[CStr ''1HGCM82633A004352'', CStr ''Sedan'', CStr ''Honda'', CStr ''Accord'',
                   CInt 2003, CStr ''Gas'', CStr ''Black, Red'', CInt 160, CNull]]\<rparr> \<and>
   \<not> has_sale example_db ''3FAHP0HA7AR654321'' \<and>
   total_parts_cost example_db ''3FAHP0HA7AR654321'' = 250.5 \<and>
   sql_round2 (1.25 * 8000.03 + 1.1 * 250.5) = 10275.59 \<and>
   search_vehicles example_db ((no_args ''Guest'')\<lparr>a_keyword := Some ''Accord''\<rparr>) =
     Inr \<lparr>columns = all_columns,
          data =
            [[CStr ''1HGCM82633A004352'', CStr ''Sedan'', CStr ''Honda'', CStr ''Accord'',
              CInt 2003, CStr ''Gas'', CStr ''Black, Red'', CInt 160, CDec 13050, CDec 10000,
              CDate 100, CDec 500, CStr ''one owner''],
             [CStr ''2T1BURHE5JC123456'', CStr ''Sedan'', CStr ''Toyota'', CStr ''Corolla'',
              CInt 2018, CStr ''Gas'', CStr ''White'', CInt 139, CDec 20000, CDec 15000,
              CDate 90, CDec 0, CStr ''low miles''],
             [CStr ''3FAHP0HA7AR654321'', CStr ''Truck'', CStr ''Ford'', CStr ''F-150'',
              CInt 2010, CStr ''Diesel'', CNull, CInt 300, CDec 10000.04, CDec 8000.03,
              CDate 110, CDec 0, CStr ''work truck'']]\<rparr>"
  by code_simp

theorem sale_price_column_witness:
  "search_vehicles example_db (no_args ''Owner'') =
     Inr \<lparr>columns = all_columns,
          data =
            [[CStr ''1HGCM82633A004352'', CStr ''Sedan'', CStr ''Honda'', CStr ''Accord'',
              CInt 2003, CStr ''Gas'', CStr ''Black, Red'', CInt 160, CDec 13050, CDec 10000,
              CDate 100, CDec 500, CStr ''one owner''],
             [CStr ''2T1BURHE5JC123456'', CStr ''Sedan'', CStr ''Toyota'', CStr ''Corolla'',
              CInt 2018, CStr ''Gas'', CStr ''White'', CInt 139, CDec 20000, CDec 15000,
              CDate 90, CDec 100, CStr ''low miles''],
             [CStr ''3FAHP0HA7AR654321'', CStr ''Truck'', CStr ''Ford'', CStr ''F-150'',
              CInt 2010, CStr ''Diesel'', CNull, CInt 300, CDec 10275.59, CDec 8000.03,
              CDate 110, CDec 250.5, CStr ''work truck'']]\<rparr> \<and>
   a_role (no_args ''Owner'') \<noteq> ''Inventory clerk'' \<and>
   a_role (no_args ''Owner'') \<in> set [''Public'', ''Salesperson'', ''Inventory clerk'', ''Manager'', ''Owner''] \<and>
   \<not> has_sale example_db ''3FAHP0HA7AR654321'' \<and>
   has_purchase example_db ''3FAHP0HA7AR654321'' \<and>
   total_parts_cost example_db ''3FAHP0HA7AR654321'' = 250.5 \<and>
   1.25 * 8000.03 + 1.1 * 250.5 = (10275.5875 :: rat) \<and>
   sql_round2 10275.5875 = 10275.59 \<and>
   (\<exists>p \<in> set (PurchaseTransaction example_db).
      pt_vehicle_identification_number p = ''3FAHP0HA7AR654321'' \<and>
      CDec 10275.59 = CDec (sql_round2 (1.25 * purchase_price p +
         1.1 * total_parts_cost example_db ''3FAHP0HA7AR654321'')))"
proof -
  let ?row = "[CStr ''3FAHP0HA7AR654321'', CStr ''Truck'', CStr ''Ford'', CStr ''F-150'',
              CInt 2010, CStr ''Diesel'', CNull, CInt 300, CDec 10275.59, CDec 8000.03,
              CDate 110, CDec 250.5, CStr ''work truck'']"
  let ?df = "\<lparr>columns = all_columns,
          data =
            [[CStr ''1HGCM82633A004352'', CStr ''Sedan'', CStr ''Honda'', CStr ''Accord'',
              CInt 2003, CStr ''Gas'', CStr ''Black, Red'', CInt 160, CDec 13050, CDec 10000,
              CDate 100, CDec 500, CStr ''one owner''],
             [CStr ''2T1BURHE5JC123456'', CStr ''Sedan'', CStr ''Toyota'', CStr ''Corolla'',
              CInt 2018, CStr ''Gas'', CStr ''White'', CInt 139, CDec 20000, CDec 15000,
              CDate 90, CDec 100, CStr ''low miles''],
             [CStr ''3FAHP0HA7AR654321'', CStr ''Truck'', CStr ''Ford'', CStr ''F-150'',
              CInt 2010, CStr ''Diesel'', CNull, CInt 300, CDec 10275.59, CDec 8000.03,
              CDate 110, CDec 250.5, CStr ''work truck'']]\<rparr>"
  have run: "search_vehicles example_db (no_args ''Owner'') = Inr ?df" by code_simp
  have row: "?row \<in> set (data ?df)" by simp
  have role: "a_role (no_args ''Owner'') \<noteq> ''Inventory clerk''" by (simp add: no_args_def)
  have known: "a_role (no_args ''Owner'') \<in> set [''Public'', ''Salesperson'', ''Inventory clerk'', ''Manager'', ''Owner'']"
    by (simp add: no_args_def)
  then have scope: "a_role (no_args ''Owner'') \<in> set [''Public'', ''Salesperson'', ''Inventory clerk'', ''Manager'', ''Owner''] \<or> no_filters (no_args ''Owner'')" ..
  have unsold: "\<not> has_sale example_db ''3FAHP0HA7AR654321''" by code_simp
  have bought: "has_purchase example_db ''3FAHP0HA7AR654321''" by code_simp
  have cost: "total_parts_cost example_db ''3FAHP0HA7AR654321'' = 250.5" by code_simp
  have calc: "1.25 * 8000.03 + 1.1 * 250.5 = (10275.5875 :: rat)" by simp
  have rnd: "sql_round2 10275.5875 = 10275.59" by code_simp
  have vin: "cell_of (columns ?df) ?row ''VIN'' = Some (CStr ''3FAHP0HA7AR654321'')"
    by (simp add: cell_of_def all_columns_def)
  have sp: "cell_of (columns ?df) ?row ''SalePrice'' = Some (CDec 10275.59)"
    by (simp add: cell_of_def all_columns_def)
  from sale_price_column [OF run row role scope] unsold bought
  have "\<exists>p \<in> set (PurchaseTransaction example_db).
      pt_vehicle_identification_number p = ''3FAHP0HA7AR654321'' \<and>
      CDec 10275.59 = CDec (sql_round2 (1.25 * purchase_price p +
         1.1 * total_parts_cost example_db ''3FAHP0HA7AR654321''))"
    unfolding vin sp by auto
  with run role known unsold bought cost calc rnd show ?thesis by blast
qed

lemma search_vehicles_cong:
  assumes "a_role a = a_role b" and "a_vehicle_status a = a_vehicle_status b"
    and "dynamic_filters a = dynamic_filters b"
  shows "search_vehicles db a = search_vehicles db b"
  unfolding search_vehicles_def assms ..

text \<open>
  C7. For each of vehicle type, manufacturer, year, fuel type and color, the search with
  the filter set to \<^verbatim>\<open>"Any"\<close> is the search with the filter left out, for every database,
  role and setting of the other arguments; the sentinel and a missing filter both add
  nothing to the statement.
\<close>

theorem search_any_is_absent:
  "search_vehicles db (a\<lparr>a_vehicle_type := Some ''Any''\<rparr>) = search_vehicles db (a\<lparr>a_vehicle_type := None\<rparr>) \<and>
   search_vehicles db (a\<lparr>a_manufacturer := Some ''Any''\<rparr>) = search_vehicles db (a\<lparr>a_manufacturer := None\<rparr>) \<and>
   search_vehicles db (a\<lparr>a_year := Some YearAny\<rparr>) = search_vehicles db (a\<lparr>a_year := None\<rparr>) \<and>
   search_vehicles db (a\<lparr>a_fuel_type := Some ''Any''\<rparr>) = search_vehicles db (a\<lparr>a_fuel_type := None\<rparr>) \<and>
   search_vehicles db (a\<lparr>a_color := Some ''Any''\<rparr>) = search_vehicles db (a\<lparr>a_color := None\<rparr>) \<and>
   any_filter mk (Some ''Any'') = [] \<and> any_filter mk None = [] \<and>
   year_filter (Some YearAny) = [] \<and> year_filter None = [] \<and> plain_filter mk None = []"
proof (intro conjI)
  show "search_vehicles db (a\<lparr>a_vehicle_type := Some ''Any''\<rparr>) = search_vehicles db (a\<lparr>a_vehicle_type := None\<rparr>)"
    by (rule search_vehicles_cong) (simp_all add: dynamic_filters_def any_filter_def)
  show "search_vehicles db (a\<lparr>a_manufacturer := Some ''Any''\<rparr>) = search_vehicles db (a\<lparr>a_manufacturer := None\<rparr>)"
    by (rule search_vehicles_cong) (simp_all add: dynamic_filters_def any_filter_def)
  show "search_vehicles db (a\<lparr>a_year := Some YearAny\<rparr>) = search_vehicles db (a\<lparr>a_year := None\<rparr>)"
    by (rule search_vehicles_cong) (simp_all add: dynamic_filters_def year_filter_def)
  show "search_vehicles db (a\<lparr>a_fuel_type := Some ''Any''\<rparr>) = search_vehicles db (a\<lparr>a_fuel_type := None\<rparr>)"
    by (rule search_vehicles_cong) (simp_all add: dynamic_filters_def any_filter_def)
  show "search_vehicles db (a\<lparr>a_color := Some ''Any''\<rparr>) = search_vehicles db (a\<lparr>a_color := None\<rparr>)"
    by (rule search_vehicles_cong) (simp_all add: dynamic_filters_def any_filter_def)
qed (simp_all add: any_filter_def year_filter_def plain_filter_def)

theorem search_any_is_absent_witness:
  "search_vehicles example_db ((no_args ''Owner'')\<lparr>a_color := Some ''Any''\<rparr>)
     = search_vehicles example_db ((no_args ''Owner'')\<lparr>a_color := None\<rparr>)"
  using search_any_is_absent [of example_db "no_args ''Owner''"] by simp






section \<open>Properties of the vehicle counts\<close>

lemma count_available_set:
  "count_available_cars db =
     card {vin \<in> vehicle_identification_number ` set (Vehicle db).
             \<not> has_sale db vin \<and> \<not> has_pending_part db vin}"
proof -
  have "set (map (\<lambda>(v, po). vehicle_identification_number v)
       (filter (\<lambda>(v, po). pending_parts db (vehicle_identification_number v) = [] \<and>
                  vehicle_identification_number v
                    \<notin> set (map st_vehicle_identification_number (SaleTransaction db)))
          (left_join (Vehicle db) (PartsOrder db)
             (\<lambda>v po. vehicle_identification_number v = po_vehicle_identification_number po))))
      = {vin \<in> vehicle_identification_number ` set (Vehicle db).
             \<not> has_sale db vin \<and> \<not> has_pending_part db vin}" (is "?L = ?R")
  proof (intro set_eqI iffI)
    fix vin
    assume "vin \<in> ?L"
    then show "vin \<in> ?R"
      by (auto simp: set_left_join' pending_parts_empty has_sale_def)
  next
    fix vin
    assume "vin \<in> ?R"
    then obtain v where v: "v \<in> set (Vehicle db)" "vehicle_identification_number v = vin"
      and ok: "\<not> has_sale db vin" "\<not> has_pending_part db vin"
      by auto
    obtain m where "opt_match (PartsOrder db)
        (\<lambda>po. vehicle_identification_number v = po_vehicle_identification_number po) m"
      using opt_match_ex by blast
    with v have "(v, m) \<in> set (left_join (Vehicle db) (PartsOrder db)
             (\<lambda>v po. vehicle_identification_number v = po_vehicle_identification_number po))"
      by (simp add: set_left_join')
    with v ok show "vin \<in> ?L"
      by (force simp: pending_parts_empty has_sale_def)
  qed
  then show ?thesis
    unfolding count_available_cars_def length_remdups_card_conv by simp
qed

lemma count_pending_set:
  "count_cars_with_pending_parts db =
     card {vin \<in> vehicle_identification_number ` set (Vehicle db).
             \<not> has_sale db vin \<and> has_pending_part db vin}"
proof -
  have "set (map (\<lambda>((v, po), p). vehicle_identification_number v)
       (filter (\<lambda>((v, po), p). status p \<noteq> ''Installed'' \<and>
                  vehicle_identification_number v
                    \<notin> set (map st_vehicle_identification_number (SaleTransaction db)))
          (inner_join
             (inner_join (Vehicle db) (PartsOrder db)
                (\<lambda>v po. vehicle_identification_number v = po_vehicle_identification_number po))
             (Part db)
             (\<lambda>(v, po) p. order_number po = p_order_number p))))
      = {vin \<in> vehicle_identification_number ` set (Vehicle db).
             \<not> has_sale db vin \<and> has_pending_part db vin}" (is "?L = ?R")
  proof (intro set_eqI iffI)
    fix vin
    assume "vin \<in> ?L"
    then obtain v po p where "((v, po), p) \<in> set (inner_join
             (inner_join (Vehicle db) (PartsOrder db)
                (\<lambda>v po. vehicle_identification_number v = po_vehicle_identification_number po))
             (Part db)
             (\<lambda>(v, po) p. order_number po = p_order_number p))"
      and "status p \<noteq> ''Installed''" and "\<not> has_sale db (vehicle_identification_number v)"
      and "vin = vehicle_identification_number v"
      by (auto simp: has_sale_def)
    then show "vin \<in> ?R"
      unfolding set_inner_join has_pending_part_def by force
  next
    fix vin
    assume "vin \<in> ?R"
    then obtain v po p where v: "v \<in> set (Vehicle db)" "vehicle_identification_number v = vin"
      and unsold: "\<not> has_sale db vin"
      and p: "p \<in> set (Part db)" "po \<in> set (PartsOrder db)" "p_order_number p = order_number po"
        "po_vehicle_identification_number po = vin" "status p \<noteq> ''Installed''"
      unfolding has_pending_part_def by auto
    then have "((v, po), p) \<in> set (inner_join
             (inner_join (Vehicle db) (PartsOrder db)
                (\<lambda>v po. vehicle_identification_number v = po_vehicle_identification_number po))
             (Part db)
             (\<lambda>(v, po) p. order_number po = p_order_number p))"
      by (simp add: set_inner_join)
    with v unsold p show "vin \<in> ?L"
      by (force simp: has_sale_def)
  qed
  then show ?thesis
    unfolding count_cars_with_pending_parts_def length_remdups_card_conv by simp
qed

text \<open>
  C10. \<^verbatim>\<open>get_vehicle_counts\<close> splits the unsold vehicles in two: the first count is the
  number of vehicles with no sale and no part whose status is not Installed (vehicles
  without parts among them), the second the number of vehicles with no sale and at least one
  such part, and the two add up to the number of vehicles without a sale. Vehicles are
  counted by their identification number, which is the number of rows when the numbers are
  distinct.
\<close>

theorem vehicle_counts_partition:
  "get_vehicle_counts db =
     (card {vin \<in> vehicle_identification_number ` set (Vehicle db).
              \<not> has_sale db vin \<and> \<not> has_pending_part db vin},
      card {vin \<in> vehicle_identification_number ` set (Vehicle db).
              \<not> has_sale db vin \<and> has_pending_part db vin}) \<and>
   fst (get_vehicle_counts db) + snd (get_vehicle_counts db) =
     card {vin \<in> vehicle_identification_number ` set (Vehicle db). \<not> has_sale db vin} \<and>
   (distinct (map vehicle_identification_number (Vehicle db)) \<longrightarrow>
      fst (get_vehicle_counts db) + snd (get_vehicle_counts db) =
        length (filter (\<lambda>v. \<not> has_sale db (vehicle_identification_number v)) (Vehicle db)))"
proof -
  let ?V = "vehicle_identification_number ` set (Vehicle db)"
  let ?A = "{vin \<in> ?V. \<not> has_sale db vin \<and> \<not> has_pending_part db vin}"
  let ?B = "{vin \<in> ?V. \<not> has_sale db vin \<and> has_pending_part db vin}"
  let ?U = "{vin \<in> ?V. \<not> has_sale db vin}"
  have counts: "get_vehicle_counts db = (card ?A, card ?B)"
    by (simp add: get_vehicle_counts_def count_available_set count_pending_set)
  have "finite ?A" "finite ?B" "?A \<inter> ?B = {}" "?A \<union> ?B = ?U" by auto
  then have sum: "card ?A + card ?B = card ?U"
    using card_Un_disjoint [of ?A ?B] by simp
  have "card ?U = length (filter (\<lambda>v. \<not> has_sale db (vehicle_identification_number v)) (Vehicle db))"
    if d: "distinct (map vehicle_identification_number (Vehicle db))"
  proof -
    have "?U = set (map vehicle_identification_number
        (filter (\<lambda>v. \<not> has_sale db (vehicle_identification_number v)) (Vehicle db)))"
      by auto
    moreover have "distinct (map vehicle_identification_number
        (filter (\<lambda>v. \<not> has_sale db (vehicle_identification_number v)) (Vehicle db)))"
      using d by (simp add: distinct_map_filter)
    ultimately show ?thesis
      using distinct_card [of "map vehicle_identification_number
        (filter (\<lambda>v. \<not> has_sale db (vehicle_identification_number v)) (Vehicle db))"]
      by (simp only: length_map)
  qed
  with counts sum show ?thesis by simp
qed

theorem vehicle_counts_partition_witness:
  "distinct (map vehicle_identification_number (Vehicle example_db)) \<and>
   get_vehicle_counts example_db = (1, 1) \<and>
   length (filter (\<lambda>v. \<not> has_sale example_db (vehicle_identification_number v))
     (Vehicle example_db)) = 2"
proof -
  have d: "distinct (map vehicle_identification_number (Vehicle example_db))"
    by (simp add: example_db_def)
  have c: "get_vehicle_counts example_db = (1, 1)" by code_simp
  from vehicle_counts_partition [of example_db] d c show ?thesis by simp
qed

section \<open>Properties of \<^verbatim>\<open>add_parts_order\<close>\<close>

lemma insert_parts_result:
  "insert_parts fl order_no db ps = Inr db' \<Longrightarrow>
     db' = db\<lparr>Part := Part db @ map (part_row fl order_no) ps\<rparr> \<and>
     distinct (map vendor_part_number ps)"
proof (induction ps arbitrary: db)
  case Nil
  then show ?case by simp
next
  case (Cons p ps)
  from Cons.prems obtain db1 where one: "insert_part db (part_row fl order_no p) = Inr db1"
    and rest: "insert_parts fl order_no db1 ps = Inr db'"
    by (auto split: sum.splits)
  from one have db1: "db1 = db\<lparr>Part := Part db @ [part_row fl order_no p]\<rparr>"
    by (auto simp: insert_part_def split: if_splits)
  from Cons.IH [OF rest] have db': "db' = db1\<lparr>Part := Part db1 @ map (part_row fl order_no) ps\<rparr>"
    and dist: "distinct (map vendor_part_number ps)" by simp_all
  have "vendor_part_number p \<notin> set (map vendor_part_number ps)"
  proof
    assume "vendor_part_number p \<in> set (map vendor_part_number ps)"
    then obtain q where q: "q \<in> set ps" "vendor_part_number q = vendor_part_number p" by auto
    then obtain ps1 ps2 where split: "ps = ps1 @ q # ps2" by (meson split_list)
    have "\<And>d d'. insert_parts fl order_no d (ps1 @ q # ps2) = Inr d' \<Longrightarrow>
        part_key (part_row fl order_no q) \<notin> set (map part_key (Part d))"
    proof -
      fix d d'
      show "insert_parts fl order_no d (ps1 @ q # ps2) = Inr d' \<Longrightarrow>
        part_key (part_row fl order_no q) \<notin> set (map part_key (Part d))"
      proof (induction ps1 arbitrary: d)
        case Nil
        then show ?case by (auto simp: insert_part_def split: sum.splits if_splits)
      next
        case (Cons a ps1)
        from Cons.prems obtain d1 where a: "insert_part d (part_row fl order_no a) = Inr d1"
          and r: "insert_parts fl order_no d1 (ps1 @ q # ps2) = Inr d'"
          by (auto split: sum.splits)
        from a have "Part d1 = Part d @ [part_row fl order_no a]"
          by (auto simp: insert_part_def split: if_splits)
        with Cons.IH [OF r] show ?case by auto
      qed
    qed
    from this [OF rest [unfolded split]]
    have "part_key (part_row fl order_no q) \<notin> set (map part_key (Part db1))" .
    with q show False by (simp add: db1 part_key_def part_row_def)
  qed
  with db1 db' dist show ?case by simp
qed

lemma zfill_small:
  "zfill 3 (str_nat 1) = ''001''" "zfill 3 (str_nat 2) = ''002''"
  by code_simp+

lemma digit_char_decimal: "d < 10 \<Longrightarrow> digit_char d = decimal_digit d"
proof -
  assume "d < 10"
  have "list_all (\<lambda>d. digit_char d = decimal_digit d) [0 ..< 10]"
    by code_simp
  then have "\<And>x. x \<in> set [0 ..< 10] \<Longrightarrow> digit_char x = decimal_digit x"
    unfolding list_all_iff by blast
  with \<open>d < 10\<close> show ?thesis by simp
qed

lemma str_nat_digit: "n < 10 \<Longrightarrow> str_nat n = [decimal_digit n]"
  by (subst str_nat.simps) (simp add: digit_char_decimal)

lemma str_nat_two:
  assumes "10 \<le> n" and "n < 100"
  shows "str_nat n = [decimal_digit (n div 10), decimal_digit (n mod 10)]"
proof -
  from assms have "n div 10 < 10" by simp
  with assms show ?thesis
    by (subst str_nat.simps) (simp add: str_nat_digit digit_char_decimal)
qed

lemma str_nat_three:
  assumes "100 \<le> n" and "n < 1000"
  shows "str_nat n = three_digits n"
proof -
  from assms have "10 \<le> n div 10" "n div 10 < 100" by simp_all
  have "n div 10 div 10 = n div 100"
    by (simp add: div_mult2_eq [symmetric])
  with str_nat_two [OF \<open>10 \<le> n div 10\<close> \<open>n div 10 < 100\<close>]
  have "str_nat (n div 10) = [decimal_digit (n div 100), decimal_digit (n div 10 mod 10)]"
    by simp
  with assms show ?thesis
    by (subst str_nat.simps) (simp add: three_digits_def digit_char_decimal)
qed

lemma zfill_three_digits:
  assumes "n < 1000"
  shows "zfill 3 (str_nat n) = three_digits n"
proof -
  have zero: "decimal_digit 0 = CHR ''0''" by (simp add: decimal_digit_def)
  consider "n < 10" | "10 \<le> n" "n < 100" | "100 \<le> n"
    by linarith
  then show ?thesis
  proof cases
    case 1
    then show ?thesis
      by (simp add: str_nat_digit zfill_def three_digits_def zero numeral_2_eq_2)
  next
    case 2
    then have "n div 100 = 0" by simp
    with 2 show ?thesis
      by (simp add: str_nat_two zfill_def three_digits_def zero)
  next
    case 3
    with assms show ?thesis
      by (simp add: str_nat_three zfill_def three_digits_def)
  qed
qed

text \<open>
  C6. When \<^verbatim>\<open>add_parts_order\<close> returns true it has appended one parts order for the
  vehicle, numbered with the vehicle's identification number, a hyphen and \<open>n\<close>, where
  \<open>n\<close> is the number of parts orders already recorded for that vehicle plus one, padded
  with zeros to three digits; its total cost is \<^verbatim>\<open>round(sum(unit_price * quantity), 2)\<close>
  over the supplied parts, and one part row is appended per supplied part. The vehicle then
  has one order more, so the next call numbers its order one higher. The first order of a
  vehicle is numbered 001 and the second 002. It returns true exactly when no insert raises,
  and false without any change otherwise, in particular when two supplied parts share a
  vendor part number.
\<close>

theorem add_parts_order_numbering:
  "(fst (add_parts_order fl vin vendor_name parts db) \<longrightarrow>
      PartsOrder (snd (add_parts_order fl vin vendor_name parts db)) =
        PartsOrder db @
          [\<lparr>po_vehicle_identification_number = vin, po_name = vendor_name,
            order_number = vin @ ''-'' @ zfill 3 (str_nat (length (orders_of db vin) + 1)),
            total_cost = float_to_decimal fl (float_round2 fl
              (foldl (float_add fl) (float_of_int fl 0)
                 (map (\<lambda>p. float_mul fl (part_unit_price p) (float_of_int fl (part_quantity p)))
                    parts)))\<rparr>] \<and>
      Part (snd (add_parts_order fl vin vendor_name parts db)) =
        Part db @
          map (part_row fl (vin @ ''-'' @ zfill 3 (str_nat (length (orders_of db vin) + 1))))
            parts \<and>
      length (orders_of (snd (add_parts_order fl vin vendor_name parts db)) vin)
        = length (orders_of db vin) + 1 \<and>
      next_order_number (snd (add_parts_order fl vin vendor_name parts db)) vin
        = vin @ ''-'' @ zfill 3 (str_nat (length (orders_of db vin) + 2))) \<and>
   (\<not> fst (add_parts_order fl vin vendor_name parts db) \<longrightarrow>
      snd (add_parts_order fl vin vendor_name parts db) = db) \<and>
   (fst (add_parts_order fl vin vendor_name parts db) \<longleftrightarrow>
      (\<exists>db1 db2.
         insert_parts_order db
           \<lparr>po_vehicle_identification_number = vin, po_name = vendor_name,
            order_number = vin @ ''-'' @ zfill 3 (str_nat (length (orders_of db vin) + 1)),
            total_cost = float_to_decimal fl (float_round2 fl
              (foldl (float_add fl) (float_of_int fl 0)
                 (map (\<lambda>p. float_mul fl (part_unit_price p) (float_of_int fl (part_quantity p)))
                    parts)))\<rparr> = Inr db1 \<and>
         insert_parts fl (vin @ ''-'' @ zfill 3 (str_nat (length (orders_of db vin) + 1)))
           db1 parts = Inr db2)) \<and>
   (\<not> distinct (map vendor_part_number parts) \<longrightarrow>
      \<not> fst (add_parts_order fl vin vendor_name parts db)) \<and>
   (length (orders_of db vin) + 1 < 1000 \<longrightarrow>
      zfill 3 (str_nat (length (orders_of db vin) + 1))
        = three_digits (length (orders_of db vin) + 1)) \<and>
   (orders_of db vin = [] \<longrightarrow> next_order_number db vin = vin @ ''-001'') \<and>
   (length (orders_of db vin) = 1 \<longrightarrow> next_order_number db vin = vin @ ''-002'')"
proof -
  let ?n = "length (orders_of db vin)"
  let ?no = "vin @ ''-'' @ zfill 3 (str_nat (?n + 1))"
  let ?cost = "float_to_decimal fl (float_round2 fl
              (foldl (float_add fl) (float_of_int fl 0)
                 (map (\<lambda>p. float_mul fl (part_unit_price p) (float_of_int fl (part_quantity p)))
                    parts)))"
  let ?row = "\<lparr>po_vehicle_identification_number = vin, po_name = vendor_name,
            order_number = ?no, total_cost = ?cost\<rparr>"
  have cnt: "count_orders d vin = length (orders_of d vin)" for d
    by (simp add: count_orders_def orders_of_def)
  have no: "next_order_number d vin = vin @ ''-'' @ zfill 3 (str_nat (length (orders_of d vin) + 1))"
    for d
    by (simp add: next_order_number_def cnt)
  have tc: "float_to_decimal fl (parts_total_cost fl parts) = ?cost"
    by (simp add: parts_total_cost_def py_sum_def)
  have add: "add_parts_order fl vin vendor_name parts db =
      (case insert_parts_order db ?row of
         Inl e \<Rightarrow> (False, db)
       | Inr db1 \<Rightarrow> (case insert_parts fl ?no db1 parts of
                      Inl e \<Rightarrow> (False, db) | Inr db2 \<Rightarrow> (True, db2)))"
    unfolding add_parts_order_def Let_def no tc ..
  have ok: "fst (add_parts_order fl vin vendor_name parts db) \<longleftrightarrow>
      (\<exists>db1 db2. insert_parts_order db ?row = Inr db1 \<and> insert_parts fl ?no db1 parts = Inr db2)"
    unfolding add by (auto split: sum.splits)
  have fail: "snd (add_parts_order fl vin vendor_name parts db) = db"
    if "\<not> fst (add_parts_order fl vin vendor_name parts db)"
    using that unfolding add by (auto split: sum.splits)
  have succ: "PartsOrder (snd (add_parts_order fl vin vendor_name parts db)) = PartsOrder db @ [?row] \<and>
      Part (snd (add_parts_order fl vin vendor_name parts db)) = Part db @ map (part_row fl ?no) parts \<and>
      length (orders_of (snd (add_parts_order fl vin vendor_name parts db)) vin) = ?n + 1 \<and>
      next_order_number (snd (add_parts_order fl vin vendor_name parts db)) vin
        = vin @ ''-'' @ zfill 3 (str_nat (?n + 2)) \<and>
      distinct (map vendor_part_number parts)"
    if "fst (add_parts_order fl vin vendor_name parts db)"
  proof -
    from that ok obtain db1 db2 where one: "insert_parts_order db ?row = Inr db1"
      and two: "insert_parts fl ?no db1 parts = Inr db2" by blast
    from one have db1: "db1 = db\<lparr>PartsOrder := PartsOrder db @ [?row]\<rparr>"
      by (simp add: insert_parts_order_def split: if_splits)
    from insert_parts_result [OF two]
    have db2: "db2 = db1\<lparr>Part := Part db1 @ map (part_row fl ?no) parts\<rparr>"
      and dist: "distinct (map vendor_part_number parts)" by simp_all
    have res: "snd (add_parts_order fl vin vendor_name parts db) = db2"
      by (simp only: add one two sum.case snd_conv)
    have len: "length (orders_of db2 vin) = ?n + 1"
      by (simp add: db1 db2 orders_of_def)
    have "next_order_number db2 vin = vin @ ''-'' @ zfill 3 (str_nat (?n + 2))"
      unfolding no len by simp
    with res db1 db2 dist len show ?thesis by simp
  qed
  have pad: "zfill 3 (str_nat (?n + 1)) = three_digits (?n + 1)" if "?n + 1 < 1000"
    using that by (rule zfill_three_digits)
  have first: "next_order_number db vin = vin @ ''-001''" if "orders_of db vin = []"
  proof -
    from that have "?n + 1 = 1" by simp
    then show ?thesis by (simp only: no zfill_small append_Cons append_Nil)
  qed
  have second: "next_order_number db vin = vin @ ''-002''" if "?n = 1"
  proof -
    from that have "?n + 1 = 2" by simp
    then show ?thesis by (simp only: no zfill_small append_Cons append_Nil)
  qed
  from ok fail succ pad first second show ?thesis by blast
qed

theorem add_parts_order_numbering_witness:
  "length (PartsOrder example_db) = 3 \<and>
   length (orders_of example_db ''1HGCM82633A004352'') = 1 \<and>
   fst (add_parts_order exact_float ''1HGCM82633A004352'' ''Acme'' example_parts example_db) \<and>
   map order_number (PartsOrder
     (snd (add_parts_order exact_float ''1HGCM82633A004352'' ''Acme'' example_parts example_db)))
     = [''1HGCM82633A004352-001'', ''2T1BURHE5JC123456-001'', ''3FAHP0HA7AR654321-001'',
        ''1HGCM82633A004352-002''] \<and>
   map total_cost (PartsOrder
     (snd (add_parts_order exact_float ''1HGCM82633A004352'' ''Acme'' example_parts example_db)))
     = [500, 100, 250.5, 20.62] \<and>
   10.25 * 2 + 0.125 * 1 = (20.625 :: rat) \<and>
   three_digits 2 = ''002'' \<and>
   next_order_number
     (snd (add_parts_order exact_float ''1HGCM82633A004352'' ''Acme'' example_parts example_db))
     ''1HGCM82633A004352'' = ''1HGCM82633A004352-003'' \<and>
   orders_of no_orders_db ''1HGCM82633A004352'' = [] \<and>
   next_order_number no_orders_db ''1HGCM82633A004352'' = ''1HGCM82633A004352-001'' \<and>
   \<not> fst (add_parts_order exact_float ''1HGCM82633A004352'' ''Acme''
            (example_parts @ example_parts) example_db)"
proof -
  let ?vin = "''1HGCM82633A004352''"
  let ?r = "add_parts_order exact_float ?vin ''Acme'' example_parts example_db"
  have all: "length (PartsOrder example_db) = 3" by (simp add: example_db_def)
  have len: "length (orders_of example_db ?vin) = 1" by code_simp
  have none: "orders_of no_orders_db ?vin = []" by code_simp
  have ok: "fst ?r" by code_simp
  have old: "map order_number (PartsOrder example_db)
      = [''1HGCM82633A004352-001'', ''2T1BURHE5JC123456-001'', ''3FAHP0HA7AR654321-001'']"
    "map total_cost (PartsOrder example_db) = [500, 100, 250.5]"
    by (simp_all add: example_db_def)
  have cost: "float_to_decimal exact_float (float_round2 exact_float
              (foldl (float_add exact_float) (float_of_int exact_float 0)
                 (map (\<lambda>p. float_mul exact_float (part_unit_price p)
                        (float_of_int exact_float (part_quantity p)))
                    example_parts))) = 20.62"
    by code_simp
  have calc: "10.25 * 2 + 0.125 * 1 = (20.625 :: rat)" by simp
  have td: "three_digits 2 = ''002''" by code_simp
  have z: "zfill 3 (str_nat 2) = ''002''" "zfill 3 (str_nat 3) = ''003''" by code_simp+
  have dup: "\<not> distinct (map vendor_part_number (example_parts @ example_parts))"
    by (simp add: example_parts_def)
  have two: "length (orders_of example_db ?vin) + 1 = 2"
    and three: "length (orders_of example_db ?vin) + 2 = 3"
    unfolding len by simp_all
  note inst = add_parts_order_numbering [of exact_float ?vin "''Acme''" example_parts example_db]
  from inst ok have po: "PartsOrder (snd ?r) = PartsOrder example_db @
          [\<lparr>po_vehicle_identification_number = ?vin, po_name = ''Acme'',
            order_number = ?vin @ ''-'' @ zfill 3 (str_nat (length (orders_of example_db ?vin) + 1)),
            total_cost = float_to_decimal exact_float (float_round2 exact_float
              (foldl (float_add exact_float) (float_of_int exact_float 0)
                 (map (\<lambda>p. float_mul exact_float (part_unit_price p)
                        (float_of_int exact_float (part_quantity p)))
                    example_parts)))\<rparr>]"
    and nxt: "next_order_number (snd ?r) ?vin
        = ?vin @ ''-'' @ zfill 3 (str_nat (length (orders_of example_db ?vin) + 2))"
    by blast+
  from po have nums: "map order_number (PartsOrder (snd ?r))
      = [''1HGCM82633A004352-001'', ''2T1BURHE5JC123456-001'', ''3FAHP0HA7AR654321-001'',
         ''1HGCM82633A004352-002'']"
    and costs: "map total_cost (PartsOrder (snd ?r)) = [500, 100, 250.5, 20.62]"
    unfolding two cost z by (simp_all add: old)
  from nxt have next3: "next_order_number (snd ?r) ?vin = ''1HGCM82633A004352-003''"
    unfolding three z by simp
  from add_parts_order_numbering [of exact_float ?vin "''Acme''" example_parts no_orders_db] none
  have first: "next_order_number no_orders_db ?vin = ''1HGCM82633A004352-001''"
    by simp
  from add_parts_order_numbering [of exact_float ?vin "''Acme''" "example_parts @ example_parts" example_db] dup
  have bad: "\<not> fst (add_parts_order exact_float ?vin ''Acme'' (example_parts @ example_parts) example_db)"
    by blast
  from all len ok nums costs calc td next3 none first bad show ?thesis by blast
qed

section \<open>Properties of the average inventory time report\<close>

lemma filter_unique_key:
  assumes "distinct (map k ys)"
  shows "filter (\<lambda>y. a = k y) ys = (case find (\<lambda>y. a = k y) ys of None \<Rightarrow> [] | Some y \<Rightarrow> [y])"
  using assms
proof (induction ys)
  case Nil
  then show ?case by simp
next
  case (Cons y ys)
  show ?case
  proof (cases "a = k y")
    case True
    with Cons.prems have "\<forall>z \<in> set ys. a \<noteq> k z" by auto
    then have "filter (\<lambda>y. a = k y) ys = []" by (simp add: filter_empty_conv)
    with True show ?thesis by simp
  next
    case False
    with Cons show ?thesis by simp
  qed
qed

lemma left_join_unique_key:
  assumes "distinct (map k ys)"
  shows "left_join xs ys (\<lambda>x y. f x = k y) = map (\<lambda>x. (x, find (\<lambda>y. f x = k y) ys)) xs"
proof -
  have "(case filter (\<lambda>y. f x = k y) ys of [] \<Rightarrow> [(x, None)]
          | m # ms \<Rightarrow> map (\<lambda>y. (x, Some y)) (m # ms)) = [(x, find (\<lambda>y. f x = k y) ys)]" for x
    unfolding filter_unique_key [OF assms] by (simp split: option.splits)
  then show ?thesis unfolding left_join_def by (induction xs) simp_all
qed

lemma filter_eq_distinct:
  "distinct ys \<Longrightarrow> filter (\<lambda>y. a = y) ys = (if a \<in> set ys then [a] else [])"
  by (induction ys) auto

lemma inner_join_types:
  assumes "distinct ys"
  shows "inner_join xs ys (\<lambda>x y. f x = y) = map (\<lambda>x. (x, f x)) (filter (\<lambda>x. f x \<in> set ys) xs)"
  unfolding inner_join_def by (induction xs) (simp_all add: filter_eq_distinct [OF assms])

lemma avt_from_keyed:
  assumes "well_keyed db"
  shows "avt_from db =
     map (avt_of db) (filter (\<lambda>v. vehicle_type v \<in> set (VehicleType db)) (Vehicle db))"
proof -
  from assms have dt: "distinct (VehicleType db)"
    and dp: "distinct (map pt_vehicle_identification_number (PurchaseTransaction db))"
    and ds: "distinct (map st_vehicle_identification_number (SaleTransaction db))"
    by (simp_all add: well_keyed_def)
  have p: "(\<lambda>(v, vt) pt. vehicle_identification_number v = pt_vehicle_identification_number pt)
      = (\<lambda>x pt. vehicle_identification_number (fst x) = pt_vehicle_identification_number pt)"
    by (simp add: fun_eq_iff)
  have s: "(\<lambda>((v, vt), pt) st. vehicle_identification_number v = st_vehicle_identification_number st)
      = (\<lambda>x st. vehicle_identification_number (fst (fst x)) = st_vehicle_identification_number st)"
    by (simp add: fun_eq_iff)
  show ?thesis
    unfolding avt_from_def p s
      left_join_unique_key [OF ds] left_join_unique_key [OF dp] inner_join_types [OF dt]
    by (simp add: avt_of_def comp_def)
qed

lemma group_by_keys_distinct: "distinct (map (\<lambda>rg. key (fst rg)) (group_by key xs))"
proof (induction key xs rule: group_by.induct)
  case (1 key)
  then show ?case by simp
next
  case (2 key x xs)
  let ?G = "group_by key (filter (\<lambda>y. key y \<noteq> key x) xs)"
  have ne: "key (fst rg) \<noteq> key x" if "rg \<in> set ?G" for rg
  proof -
    from that have "(fst rg, snd rg) \<in> set ?G" by simp
    from group_by_complete [OF this] show ?thesis by simp
  qed
  have "key x \<notin> (\<lambda>rg. key (fst rg)) ` set ?G"
  proof
    assume "key x \<in> (\<lambda>rg. key (fst rg)) ` set ?G"
    then obtain rg where "rg \<in> set ?G" and "key x = key (fst rg)" by (rule imageE)
    with ne [of rg] show False by simp
  qed
  with "2.IH" show ?case by simp
qed

lemma group_by_keys_set: "set (map (\<lambda>rg. key (fst rg)) (group_by key xs)) = key ` set xs"
proof (intro set_eqI iffI)
  fix k
  assume "k \<in> set (map (\<lambda>rg. key (fst rg)) (group_by key xs))"
  then obtain r g where "(r, g) \<in> set (group_by key xs)" "k = key r" by auto
  with group_by_complete [of r g key xs] show "k \<in> key ` set xs" by auto
next
  fix k
  assume "k \<in> key ` set xs"
  then obtain x where "x \<in> set xs" "k = key x" by auto
  with group_by_cover [of x xs key] show "k \<in> set (map (\<lambda>rg. key (fst rg)) (group_by key xs))"
    by force
qed

lemma sorted_groups_keys:
  fixes key :: "'a \<Rightarrow> 'k::linorder"
  assumes "sorted ks" and "distinct ks" and "set ks = key ` set xs"
  shows "map (\<lambda>rg. key (fst rg)) (sort_key (\<lambda>rg. key (fst rg)) (group_by key xs)) = ks"
proof (rule sorted_distinct_set_unique)
  show "sorted (map (\<lambda>rg. key (fst rg)) (sort_key (\<lambda>rg. key (fst rg)) (group_by key xs)))"
    by (rule sorted_sort_key)
  show "distinct (map (\<lambda>rg. key (fst rg)) (sort_key (\<lambda>rg. key (fst rg)) (group_by key xs)))"
    using group_by_keys_distinct [of key xs] by (simp add: distinct_map)
  show "set (map (\<lambda>rg. key (fst rg)) (sort_key (\<lambda>rg. key (fst rg)) (group_by key xs))) = set ks"
    using group_by_keys_set [of key xs] assms(3) by simp
qed (use assms in simp_all)

lemma reported_types_set:
  "set (reported_types db) =
     {t \<in> set (VehicleType db). \<exists>v \<in> set (Vehicle db). vehicle_type v = t}"
  by (auto simp: reported_types_def)

lemma avt_type_of: "avt_type (avt_of db v) = vehicle_type v"
  by (simp add: avt_type_def avt_of_def)

lemma report_rows:
  assumes wk: "well_keyed db"
  shows "data (average_inventory_time_report db) =
     map (\<lambda>t. [CStr t, avg_inventory_time (filter (\<lambda>r. avt_type r = t) (avt_from db))])
       (reported_types db)"
proof -
  let ?rows = "avt_from db"
  let ?gs = "sort_key (\<lambda>rg. avt_type (fst rg)) (group_by avt_type ?rows)"
  let ?F = "\<lambda>t. [CStr t, avg_inventory_time (filter (\<lambda>r. avt_type r = t) ?rows)]"
  have k: "(\<lambda>(r, g). avt_type r) = (\<lambda>rg. avt_type (fst rg))"
    by (simp add: fun_eq_iff)
  from wk have "distinct (VehicleType db)" by (simp add: well_keyed_def)
  then have d: "distinct (reported_types db)" by (simp add: reported_types_def)
  have srt: "sorted (reported_types db)" by (simp add: reported_types_def)
  have "avt_type ` set ?rows =
      vehicle_type ` {v \<in> set (Vehicle db). vehicle_type v \<in> set (VehicleType db)}"
    unfolding avt_from_keyed [OF wk] by (simp add: image_image avt_type_of)
  also have "\<dots> = set (reported_types db)"
    unfolding reported_types_set by auto
  finally have st: "set (reported_types db) = avt_type ` set ?rows" by simp
  have keys: "map (\<lambda>rg. avt_type (fst rg)) ?gs = reported_types db"
    using sorted_groups_keys [OF srt d st] .
  have "map (\<lambda>(r, g). [CStr (avt_type r), avg_inventory_time g]) ?gs
      = map (\<lambda>rg. ?F (avt_type (fst rg))) ?gs"
  proof (rule map_cong [OF refl])
    fix rg
    assume "rg \<in> set ?gs"
    then have "(fst rg, snd rg) \<in> set (group_by avt_type ?rows)" by simp
    from group_by_complete [OF this]
    have "snd rg = filter (\<lambda>r. avt_type r = avt_type (fst rg)) ?rows" by simp
    then show "(case rg of (r, g) \<Rightarrow> [CStr (avt_type r), avg_inventory_time g])
        = ?F (avt_type (fst rg))"
      by (simp add: case_prod_beta)
  qed
  also have "\<dots> = map ?F (map (\<lambda>rg. avt_type (fst rg)) ?gs)" by (simp add: comp_def)
  also have "\<dots> = map ?F (reported_types db)" by (simp only: keys)
  finally show ?thesis by (simp add: average_inventory_time_report_def k)
qed

lemma map_filter_map: "List.map_filter f (map g xs) = List.map_filter (\<lambda>x. f (g x)) xs"
  by (induction xs) (simp_all split: option.splits)

lemma map_filter_restrict:
  assumes "\<And>x. \<not> P x \<Longrightarrow> f x = None"
  shows "List.map_filter f (filter Q xs) = List.map_filter f (filter (\<lambda>x. Q x \<and> P x) xs)"
  by (induction xs) (auto simp: assms split: option.splits)

lemma map_filter_all:
  assumes "\<And>x. x \<in> set xs \<Longrightarrow> f x \<noteq> None"
  shows "length (List.map_filter f xs) = length xs"
  using assms by (induction xs) (fastforce split: option.splits)+

lemma find_sale_iff:
  "find (\<lambda>s. vehicle_identification_number v = st_vehicle_identification_number s)
      (SaleTransaction db) \<noteq> None \<longleftrightarrow> has_sale db (vehicle_identification_number v)"
  by (auto simp: find_None_iff has_sale_def)

lemma find_sale_ex:
  "(\<exists>s. find (\<lambda>s. vehicle_identification_number v = st_vehicle_identification_number s)
      (SaleTransaction db) = Some s) \<longleftrightarrow> has_sale db (vehicle_identification_number v)"
  using find_sale_iff [of v db] by simp

lemma find_purchase_iff:
  "find (\<lambda>p. vehicle_identification_number v = pt_vehicle_identification_number p)
      (PurchaseTransaction db) \<noteq> None \<longleftrightarrow> has_purchase db (vehicle_identification_number v)"
  by (auto simp: find_None_iff has_purchase_def)

lemma days_of: "days_in_inventory (avt_of db v) = inventory_days db v"
  by (simp add: days_in_inventory_def avt_of_def inventory_days_def)

lemma inventory_days_unsold:
  "\<not> has_sale db (vehicle_identification_number v) \<Longrightarrow> inventory_days db v = None"
  using find_sale_iff [of v db] by (simp add: inventory_days_def)

lemma avg_by_type:
  assumes wk: "well_keyed db" and t: "t \<in> set (VehicleType db)"
  shows "avg_inventory_time (filter (\<lambda>r. avt_type r = t) (avt_from db)) = mean_inventory_time db t"
proof -
  let ?vs = "filter (\<lambda>v. vehicle_type v = t) (Vehicle db)"
  let ?sold = "sold_vehicles_of_type db t"
  have "filter (\<lambda>v. vehicle_type v = t)
          (filter (\<lambda>v. vehicle_type v \<in> set (VehicleType db)) (Vehicle db)) = ?vs"
    using t by (induction "Vehicle db") (auto intro: filter_cong)
  then have rows: "filter (\<lambda>r. avt_type r = t) (avt_from db) = map (avt_of db) ?vs"
    unfolding avt_from_keyed [OF wk] by (simp add: filter_map comp_def avt_type_of)
  have "filter (\<lambda>r. snd r \<noteq> None) (map (avt_of db) ?vs)
      = map (avt_of db) (filter (\<lambda>v. has_sale db (vehicle_identification_number v)) ?vs)"
    by (simp add: filter_map comp_def avt_of_def find_sale_ex)
  then have cnt: "count_sold_on (map (avt_of db) ?vs) = length ?sold"
    unfolding count_sold_on_def sold_vehicles_of_type_def by simp
  have "List.map_filter days_in_inventory (map (avt_of db) ?vs)
      = List.map_filter (inventory_days db) ?vs"
    by (simp add: map_filter_map days_of)
  also have "\<dots> = List.map_filter (inventory_days db) ?sold"
    unfolding sold_vehicles_of_type_def
    by (rule map_filter_restrict) (rule inventory_days_unsold)
  finally have days: "List.map_filter days_in_inventory (map (avt_of db) ?vs)
      = List.map_filter (inventory_days db) ?sold" .
  show ?thesis
    unfolding rows avg_inventory_time_def cnt days mean_inventory_time_def Let_def sql_avg_def
    by simp
qed

text \<open>
  On a database with unique keys the report has one row for each vehicle type of the type
  table that has at least one vehicle, in ascending order of the type name, and the value
  of the row is the average inventory time of the type as the specification words it.
  When every sold vehicle of a type has a purchase, every one of them counts in the mean.
\<close>

lemma report_per_listed_type:
  assumes wk: "well_keyed db"
  shows "columns (average_inventory_time_report db) = [''Vehicle Type'', ''Avg Inventory Time''] \<and>
     data (average_inventory_time_report db) =
       map (\<lambda>t. [CStr t, mean_inventory_time db t]) (reported_types db) \<and>
     sorted (reported_types db) \<and> distinct (reported_types db) \<and>
     set (reported_types db) =
       {t \<in> set (VehicleType db). \<exists>v \<in> set (Vehicle db). vehicle_type v = t} \<and>
     (\<forall>t. (\<forall>v \<in> set (sold_vehicles_of_type db t).
               has_purchase db (vehicle_identification_number v)) \<longrightarrow>
          length (List.map_filter (inventory_days db) (sold_vehicles_of_type db t))
            = length (sold_vehicles_of_type db t))"
proof -
  from wk have "distinct (VehicleType db)" by (simp add: well_keyed_def)
  then have d: "distinct (reported_types db)" by (simp add: reported_types_def)
  have srt: "sorted (reported_types db)" by (simp add: reported_types_def)
  have "map (\<lambda>t. [CStr t, avg_inventory_time (filter (\<lambda>r. avt_type r = t) (avt_from db))])
       (reported_types db) = map (\<lambda>t. [CStr t, mean_inventory_time db t]) (reported_types db)"
  proof (rule map_cong [OF refl])
    fix t
    assume "t \<in> set (reported_types db)"
    then have "t \<in> set (VehicleType db)" by (simp add: reported_types_set)
    from avg_by_type [OF wk this]
    show "[CStr t, avg_inventory_time (filter (\<lambda>r. avt_type r = t) (avt_from db))]
        = [CStr t, mean_inventory_time db t]" by simp
  qed
  with report_rows [OF wk] have rows: "data (average_inventory_time_report db) =
       map (\<lambda>t. [CStr t, mean_inventory_time db t]) (reported_types db)" by simp
  have full: "length (List.map_filter (inventory_days db) (sold_vehicles_of_type db t))
            = length (sold_vehicles_of_type db t)"
    if "\<forall>v \<in> set (sold_vehicles_of_type db t). has_purchase db (vehicle_identification_number v)"
    for t
  proof (rule map_filter_all)
    fix v
    assume v: "v \<in> set (sold_vehicles_of_type db t)"
    then have "has_sale db (vehicle_identification_number v)"
      by (simp add: sold_vehicles_of_type_def)
    moreover from v that have "has_purchase db (vehicle_identification_number v)" by blast
    ultimately show "inventory_days db v \<noteq> None"
      using find_sale_iff [of v db] find_purchase_iff [of v db]
      by (auto simp: inventory_days_def)
  qed
  have cols: "columns (average_inventory_time_report db) = [''Vehicle Type'', ''Avg Inventory Time'']"
    by (simp add: average_inventory_time_report_def)
  from cols rows srt d reported_types_set [of db] full show ?thesis by blast
qed

text \<open>
  C8. The report is to have one row per vehicle type, a type without a sold vehicle
  reporting \<^verbatim>\<open>'N/A'\<close>. \<^verbatim>\<open>average_inventory_time_report\<close> selects from \<^verbatim>\<open>Vehicle\<close>
  and inner-joins \<^verbatim>\<open>VehicleType\<close>, so a type without any vehicle has no row at all: the
  example database lists the three types SUV, Sedan and Truck, no vehicle is an SUV, and
  the report has the two rows of Sedan (the mean 95 / 3 of its three sold vehicles, rounded
  to 31.67) and Truck (\<^verbatim>\<open>'N/A'\<close>, its only vehicle being unsold), and none for SUV, whose
  average inventory time is \<^verbatim>\<open>'N/A'\<close>.
\<close>

theorem average_inventory_time_omits_empty_type:
  "distinct (VehicleType report_db) \<and>
   set (VehicleType report_db) = {''SUV'', ''Sedan'', ''Truck''} \<and>
   filter (\<lambda>v. vehicle_type v = ''SUV'') (Vehicle report_db) = [] \<and>
   sold_vehicles_of_type report_db ''SUV'' = [] \<and>
   mean_inventory_time report_db ''SUV'' = CStr ''N/A'' \<and>
   map (inventory_days report_db) (sold_vehicles_of_type report_db ''Sedan'')
     = [Some 31, Some 32, Some 32] \<and>
   sold_vehicles_of_type report_db ''Truck'' = [] \<and>
   data (average_inventory_time_report report_db) =
     [[CStr ''Sedan'', CDec 31.67], [CStr ''Truck'', CStr ''N/A'']] \<and>
   CStr ''SUV'' \<notin> set (map hd (data (average_inventory_time_report report_db)))"
  by code_simp

end
